theory Spec2Isabelle
  imports Main "HOL-Library.Sublist" "HOL-Library.AList"
begin

text \<open>
  A shallow embedding of the ScopeBlind gateway (\<open>gateway/src/index.ts\<close>) and of the
  widget (\<open>index.ts\<close>, \<open>voprf.ts\<close>, \<open>holder-binding.ts\<close>, \<open>ui.ts\<close>). Every function of
  the source is a function here; what the source does to the widget's fields and to the
  browser's storage is explicit state passing, a throw is an \<open>Inl\<close>, and everything the
  code asks of its platform (the network, the VOPRF library, WebCrypto, IndexedDB) is a
  field of a record that describes one run. First the definitions, then the properties.
\<close>

section \<open>Platform values shared by the gateway and the widget\<close>

text \<open>
  Byte arrays (\<open>Uint8Array\<close>) are lists of naturals below 256, strings are \<open>string\<close>.
  A JavaScript value of type \<open>string | undefined | null\<close> is a \<open>string option\<close>; it is
  truthy when it is present and not the empty string.
\<close>

type_synonym bytes = "nat list"

type_synonym header = "string \<times> string"

datatype json =
    JNull
  | JBool bool
  | JNum int
  | JStr string
  | JArr "json list"
  | JObj "(string \<times> json) list"

fun truthy :: "string option \<Rightarrow> bool" where
  "truthy None = False"
| "truthy (Some s) = (s \<noteq> [])"

text \<open>\<open>String.prototype.toLowerCase\<close> on ASCII (header names are ASCII).\<close>

definition lower_char :: "char \<Rightarrow> char" where
  "lower_char c =
     (if 65 \<le> (of_char c :: nat) \<and> (of_char c :: nat) \<le> 90
      then char_of ((of_char c :: nat) + 32) else c)"

definition toLowerCase :: "string \<Rightarrow> string" where
  "toLowerCase s = map lower_char s"

text \<open>\<open>s.startsWith(p)\<close>.\<close>

definition startsWith :: "string \<Rightarrow> string \<Rightarrow> bool" where
  "startsWith s p = prefix p s"

subsection \<open>Headers\<close>

text \<open>
  A \<open>Headers\<close> object is the list of its entries. Names are matched without regard to
  case and kept in lower case; \<open>set\<close> replaces every entry of that name.
\<close>

definition headers_get :: "header list \<Rightarrow> string \<Rightarrow> string option" where
  "headers_get hs name =
     map_option snd (find (\<lambda>kv. toLowerCase (fst kv) = toLowerCase name) hs)"

definition headers_set :: "header list \<Rightarrow> string \<Rightarrow> string \<Rightarrow> header list" where
  "headers_set hs name v =
     filter (\<lambda>kv. toLowerCase (fst kv) \<noteq> toLowerCase name) hs @ [(toLowerCase name, v)]"

subsection \<open>URLs\<close>

text \<open>
  A plain reading of the platform's \<open>URL\<close> class: \<open>new URL(ref, base)\<close>, the fields
  \<open>host\<close>, \<open>pathname\<close> and \<open>search\<close>, the setter of \<open>search\<close> and \<open>toString\<close>. It
  knows \<open>http\<close> and \<open>https\<close> only and copies host and path as they are written: it is
  exact on lower-case URLs without port or credentials whose characters need no
  encoding, and it does not lower-case a host, drop a default port, percent-encode,
  remove dot segments or trim. \<open>None\<close> is the \<open>TypeError\<close> of the constructor. The widget
  takes the pathname of the URL it is given with it; the gateway's handler takes the
  \<open>URL\<close> class as a parameter instead.
\<close>

record url =
  url_scheme :: string
  url_host :: string
  url_pathname :: string
  url_search :: string
  url_hash :: string

definition is_delim :: "char \<Rightarrow> bool" where
  "is_delim c = (c = CHR ''/'' \<or> c = CHR ''?'' \<or> c = CHR ''#'')"

definition is_query_or_hash :: "char \<Rightarrow> bool" where
  "is_query_or_hash c = (c = CHR ''?'' \<or> c = CHR ''#'')"

text \<open>Splits \<open>path?query#fragment\<close>; an empty query or fragment reads as \<open>''''\<close>.\<close>

definition parse_rest :: "string \<Rightarrow> string \<times> string \<times> string" where
  "parse_rest s =
     (let p = takeWhile (\<lambda>c. \<not> is_query_or_hash c) s;
          r = dropWhile (\<lambda>c. \<not> is_query_or_hash c) s;
          q = takeWhile (\<lambda>c. c \<noteq> CHR ''#'') r;
          h = dropWhile (\<lambda>c. c \<noteq> CHR ''#'') r
      in (p, if q = ''?'' then [] else q, if h = ''#'' then [] else h))"

definition parse_authority :: "string \<Rightarrow> string \<Rightarrow> url option" where
  "parse_authority sc rest =
     (let h = takeWhile (\<lambda>c. \<not> is_delim c) rest;
          r = dropWhile (\<lambda>c. \<not> is_delim c) rest
      in if h = [] then None
         else (case parse_rest r of (p, q, f) \<Rightarrow>
           Some \<lparr>url_scheme = sc, url_host = h,
                 url_pathname = (if p = [] then ''/'' else p),
                 url_search = q, url_hash = f\<rparr>))"

definition parse_absolute :: "string \<Rightarrow> url option" where
  "parse_absolute s =
     (if startsWith s ''https://'' then parse_authority ''https'' (drop 8 s)
      else if startsWith s ''http://'' then parse_authority ''http'' (drop 7 s)
      else None)"

text \<open>The directory of a path: everything up to and including the last slash.\<close>

definition dirname :: "string \<Rightarrow> string" where
  "dirname p = rev (dropWhile (\<lambda>c. c \<noteq> CHR ''/'') (rev p))"

definition URL_new :: "string \<Rightarrow> string option \<Rightarrow> url option" where
  "URL_new ref base =
     (case parse_absolute ref of
        Some u \<Rightarrow> Some u
      | None \<Rightarrow>
          (case base of
             None \<Rightarrow> None
           | Some b \<Rightarrow>
               (case parse_absolute b of
                  None \<Rightarrow> None
                | Some bu \<Rightarrow>
                    if startsWith ref ''//'' then parse_absolute (url_scheme bu @ '':'' @ ref)
                    else (case parse_rest ref of (p, q, f) \<Rightarrow>
                      if startsWith ref ''/'' then
                        Some (bu\<lparr>url_pathname := p, url_search := q, url_hash := f\<rparr>)
                      else if p = [] then
                        Some (bu\<lparr>url_search := (if startsWith ref ''?'' then q else url_search bu),
                                 url_hash := f\<rparr>)
                      else
                        Some (bu\<lparr>url_pathname := dirname (url_pathname bu) @ p,
                                 url_search := q, url_hash := f\<rparr>)))))"

text \<open>The setter of \<open>search\<close>: the empty string and a lone \<open>?\<close> clear the query.\<close>

definition URL_set_search :: "url \<Rightarrow> string \<Rightarrow> url" where
  "URL_set_search u s =
     u\<lparr>url_search := (if s = [] \<or> s = ''?'' then []
                       else if startsWith s ''?'' then s else CHR ''?'' # s)\<rparr>"

definition URL_toString :: "url \<Rightarrow> string" where
  "URL_toString u =
     url_scheme u @ ''://'' @ url_host u @ url_pathname u @ url_search u @ url_hash u"

text \<open>
  The \<open>URL\<close> class as a parameter: the constructor (\<open>None\<close> when it throws), the
  getter and the setter of \<open>search\<close>, the getter of \<open>host\<close> and \<open>toString\<close>, over
  whatever the platform's URL objects are.
\<close>

record 'u URL_class =
  new_URL :: "string \<Rightarrow> string option \<Rightarrow> 'u option"
  get_search :: "'u \<Rightarrow> string"
  set_search :: "'u \<Rightarrow> string \<Rightarrow> 'u"
  get_host :: "'u \<Rightarrow> string"
  to_string :: "'u \<Rightarrow> string"

text \<open>
  The \<open>URL\<close> class of the samples: the plain reading above, with a backslash in front
  of the query read as a slash, as the URL standard has it for \<open>http\<close> and \<open>https\<close>.
\<close>

definition slash_path :: "string \<Rightarrow> string" where
  "slash_path s =
     map (\<lambda>c. if c = CHR 0x5C then CHR ''/'' else c)
       (takeWhile (\<lambda>c. \<not> is_query_or_hash c) s) @
     dropWhile (\<lambda>c. \<not> is_query_or_hash c) s"

definition sample_urls :: "url URL_class" where
  "sample_urls =
     \<lparr>new_URL = (\<lambda>ref base. URL_new (slash_path ref) (map_option slash_path base)),
      get_search = url_search, set_search = URL_set_search,
      get_host = url_host, to_string = URL_toString\<rparr>"

subsection \<open>The network\<close>

text \<open>
  A request as \<open>fetch(url, init)\<close> sends it. A body made by \<open>JSON.stringify(v)\<close> is kept as
  the value \<open>v\<close>; a body passed through is kept as its text.
\<close>

datatype payload = Raw string | Json json

record http_request =
  rq_url :: string
  rq_method :: string
  rq_headers :: "header list"
  rq_body :: "payload option"

text \<open>
  A response as the code reads it: \<open>rs_text\<close> is what \<open>text()\<close> resolves to, \<open>rs_json\<close> what
  \<open>json()\<close> resolves to, \<open>None\<close> when the body is not JSON and \<open>json()\<close> rejects.
\<close>

record http_response =
  rs_status :: nat
  rs_statusText :: string
  rs_headers :: "header list"
  rs_text :: string
  rs_json :: "json option"

definition rs_ok :: "http_response \<Rightarrow> bool" where
  "rs_ok r = (200 \<le> rs_status r \<and> rs_status r \<le> 299)"

text \<open>\<open>await fetch(...)\<close> either rejects (the service cannot be reached) or resolves.\<close>

datatype fetch_result = Rejects string | Resolves http_response

type_synonym network = "http_request \<Rightarrow> fetch_result"

section \<open>The gateway: the handler of \<open>/api/*\<close>\<close>

record bindings =
  BACKEND_URL :: "string option"
  SCOPEBLIND_VERIFIER_URL :: "string option"
  SCOPEBLIND_SECRET :: "string option"

text \<open>
  What the handler reads from the Hono context: \<open>c.req.method\<close>, \<open>c.req.path\<close>,
  \<open>c.req.url\<close>, the entries of \<open>c.req.raw.headers\<close> and \<open>c.req.raw.body\<close>.
\<close>

record inbound =
  req_method :: string
  req_path :: string
  req_url :: string
  req_headers :: "header list"
  req_body :: "string option"

text \<open>
  What the handler returns: \<open>c.json(obj, status)\<close>, the backend's response relayed, or
  an exception no \<open>try\<close> catches (Hono answers 500).
\<close>

datatype reply =
    Json_reply json nat
  | Relayed http_response
  | Uncaught

definition default_verifier :: string where
  "default_verifier = ''https://scopeblind-verifier-deterministic.tomjwxf.workers.dev''"

definition json_field :: "string \<Rightarrow> string option \<Rightarrow> (string \<times> json) list" where
  "json_field k v = (case v of None \<Rightarrow> [] | Some s \<Rightarrow> [(k, JStr s)])"

definition verify_request ::
  "bindings \<Rightarrow> inbound \<Rightarrow> string option \<Rightarrow> string option \<Rightarrow> http_request" where
  "verify_request env c proofHeader tokenHeader =
     (let verifierUrl =
            (if truthy (SCOPEBLIND_VERIFIER_URL env) then the (SCOPEBLIND_VERIFIER_URL env)
             else default_verifier)
      in \<lparr>rq_url = verifierUrl @ ''/verify'',
          rq_method = ''POST'',
          rq_headers =
            (''Content-Type'', ''application/json'') #
            (if truthy (SCOPEBLIND_SECRET env)
             then [(''Authorization'', ''Bearer '' @ the (SCOPEBLIND_SECRET env))] else []),
          rq_body = Some (Json (JObj
            (json_field ''proof'' proofHeader @ json_field ''token'' tokenHeader @
             [(''path'', JStr (req_path c)), (''method'', JStr (req_method c))])))\<rparr>)"

text \<open>The loop that copies the inbound headers and leaves the protocol's ones out.\<close>

fun copy_headers :: "header list \<Rightarrow> header list \<Rightarrow> header list" where
  "copy_headers [] acc = acc"
| "copy_headers ((key, v) # rest) acc =
     copy_headers rest
       (if \<not> startsWith (toLowerCase key) ''x-scopeblind'' then headers_set acc key v else acc)"

text \<open>
  The request sent to the backend, given \<open>targetUrl.toString()\<close> and \<open>targetUrl.host\<close>.
\<close>

definition backend_request :: "inbound \<Rightarrow> string \<Rightarrow> string \<Rightarrow> http_request" where
  "backend_request c href host =
     \<lparr>rq_url = href,
      rq_method = req_method c,
      rq_headers = headers_set (copy_headers (req_headers c) []) ''Host'' host,
      rq_body = (if req_method c \<noteq> ''GET'' \<and> req_method c \<noteq> ''HEAD''
                 then map_option Raw (req_body c) else None)\<rparr>"

text \<open>
  Step 2 of the handler. The second component is the list of \<open>fetch\<close> calls made so far,
  in order.
\<close>

definition forward ::
  "'u URL_class \<Rightarrow> network \<Rightarrow> bindings \<Rightarrow> inbound \<Rightarrow> http_request list \<Rightarrow>
     reply \<times> http_request list" where
  "forward U net env c calls =
     (if \<not> truthy (BACKEND_URL env) then
        (Json_reply (JObj [(''error'', JStr ''BACKEND_URL not configured'')]) 500, calls)
      else
        (case new_URL U (req_path c) (BACKEND_URL env) of
           None \<Rightarrow> (Uncaught, calls)
         | Some t \<Rightarrow>
             (case new_URL U (req_url c) None of
                None \<Rightarrow> (Uncaught, calls)
              | Some u \<Rightarrow>
                  (let targetUrl = set_search U t (get_search U u);
                       breq = backend_request c (to_string U targetUrl) (get_host U targetUrl)
                   in (case net breq of
                         Rejects msg \<Rightarrow>
                           (Json_reply (JObj [(''error'', JStr ''Backend unreachable''),
                                              (''details'', JStr msg)]) 502,
                            calls @ [breq])
                       | Resolves response \<Rightarrow>
                           (Relayed (response\<lparr>rs_headers :=
                               headers_set (rs_headers response)
                                 ''Access-Control-Allow-Origin'' ''*''\<rparr>),
                            calls @ [breq]))))))"

definition api_handler ::
  "'u URL_class \<Rightarrow> network \<Rightarrow> bindings \<Rightarrow> inbound \<Rightarrow> reply \<times> http_request list" where
  "api_handler U net env c =
     (let proofHeader = headers_get (req_headers c) ''X-ScopeBlind-Proof'';
          tokenHeader = headers_get (req_headers c) ''X-ScopeBlind-Token''
      in if truthy proofHeader \<or> truthy tokenHeader then
           (let vreq = verify_request env c proofHeader tokenHeader
            in (case net vreq of
                  Rejects e \<Rightarrow>
                    (Json_reply (JObj [(''error'', JStr ''Verification service unavailable'')]) 503,
                     [vreq])
                | Resolves verifyResponse \<Rightarrow>
                    if \<not> rs_ok verifyResponse then
                      (Json_reply (JObj [(''error'', JStr ''Invalid ScopeBlind proof''),
                                         (''details'', JStr (rs_text verifyResponse))]) 403,
                       [vreq])
                    else
                      (case rs_json verifyResponse of
                         None \<Rightarrow>
                           (Json_reply
                              (JObj [(''error'', JStr ''Verification service unavailable'')]) 503,
                            [vreq])
                       | Some result \<Rightarrow> forward U net env c [vreq])))
         else forward U net env c [])"

text \<open>The request the handler sends to the verifier for an inbound request.\<close>

definition verifier_call :: "bindings \<Rightarrow> inbound \<Rightarrow> http_request" where
  "verifier_call env c =
     verify_request env c (headers_get (req_headers c) ''X-ScopeBlind-Proof'')
       (headers_get (req_headers c) ''X-ScopeBlind-Token'')"

definition carries_proof_or_token :: "inbound \<Rightarrow> bool" where
  "carries_proof_or_token c =
     (truthy (headers_get (req_headers c) ''X-ScopeBlind-Proof'') \<or>
      truthy (headers_get (req_headers c) ''X-ScopeBlind-Token''))"

subsection \<open>Sample gateway inputs\<close>

definition sample_env :: bindings where
  "sample_env = \<lparr>BACKEND_URL = Some ''https://api.example.com'',
                 SCOPEBLIND_VERIFIER_URL = Some ''https://verifier.example.com'',
                 SCOPEBLIND_SECRET = None\<rparr>"

definition sample_post :: inbound where
  "sample_post = \<lparr>req_method = ''POST'', req_path = ''/api/chat'',
                  req_url = ''https://gw.example.com/api/chat?x=1'',
                  req_headers = [(''content-type'', ''text/plain''),
                                 (''x-scopeblind-proof'', ''cHJvb2Y='')],
                  req_body = Some ''hello''\<rparr>"

definition plain_response :: "nat \<Rightarrow> string \<Rightarrow> json option \<Rightarrow> http_response" where
  "plain_response st txt j =
     \<lparr>rs_status = st, rs_statusText = [], rs_headers = [], rs_text = txt, rs_json = j\<rparr>"

text \<open>A verifier that answers 401 with a text, and a backend that answers 200.\<close>

definition net_verifier_denies :: network where
  "net_verifier_denies rq =
     (if rq_url rq = ''https://verifier.example.com/verify''
      then Resolves (plain_response 401 ''nullifier already spent'' None)
      else Resolves (plain_response 200 ''ok'' None))"

text \<open>A verifier that cannot be reached.\<close>

definition net_verifier_down :: network where
  "net_verifier_down rq =
     (if rq_url rq = ''https://verifier.example.com/verify''
      then Rejects ''connect failed''
      else Resolves (plain_response 200 ''ok'' None))"

text \<open>The text of the JSON object \<open>{"allowed": b}\<close>.\<close>

definition allowed_text :: "bool \<Rightarrow> string" where
  "allowed_text b =
     ''{'' @ [CHR 0x22] @ ''allowed'' @ [CHR 0x22] @ '':'' @
     (if b then ''true'' else ''false'') @ ''}''"

text \<open>A verifier that answers 200 with a body that is not JSON.\<close>

definition net_verifier_not_json :: network where
  "net_verifier_not_json rq =
     (if rq_url rq = ''https://verifier.example.com/verify''
      then Resolves (plain_response 200 ''OK'' None)
      else Resolves (plain_response 200 ''ok'' None))"

text \<open>A verifier that answers 200 with \<open>{allowed: false}\<close>, in front of a backend that answers.\<close>

definition net_verifier_disallows :: network where
  "net_verifier_disallows rq =
     (if rq_url rq = ''https://verifier.example.com/verify''
      then Resolves (plain_response 200 (allowed_text False)
                       (Some (JObj [(''allowed'', JBool False)])))
      else Resolves (plain_response 200 ''ok'' None))"






section \<open>The widget's platform\<close>

subsection \<open>Text and base64\<close>

text \<open>\<open>new TextEncoder().encode(s)\<close>, for the one-byte characters of \<open>string\<close>.\<close>

definition encode_utf8 :: "string \<Rightarrow> bytes" where
  "encode_utf8 s = map of_char s"

definition b64_alphabet :: string where
  "b64_alphabet = ''ABCDEFGHIJKLMNOPQRSTUVWXYZabcdefghijklmnopqrstuvwxyz0123456789+/''"

definition b64_char :: "nat \<Rightarrow> char" where
  "b64_char n = b64_alphabet ! (n mod 64)"

text \<open>\<open>btoa(String.fromCharCode(...bytes))\<close>.\<close>

fun btoa_bytes :: "bytes \<Rightarrow> string" where
  "btoa_bytes (a # b # c # rest) =
     [b64_char (a div 4), b64_char ((a mod 4) * 16 + b div 16),
      b64_char ((b mod 16) * 4 + c div 64), b64_char (c mod 64)] @ btoa_bytes rest"
| "btoa_bytes [a, b] =
     [b64_char (a div 4), b64_char ((a mod 4) * 16 + b div 16),
      b64_char ((b mod 16) * 4), CHR ''='']"
| "btoa_bytes [a] = [b64_char (a div 4), b64_char ((a mod 4) * 16), CHR ''='', CHR ''='']"
| "btoa_bytes [] = []"

definition b64_value :: "char \<Rightarrow> nat option" where
  "b64_value c = map_of (zip b64_alphabet [0..<64]) c"

definition is_ascii_whitespace :: "char \<Rightarrow> bool" where
  "is_ascii_whitespace c =
     (c = CHR 0x09 \<or> c = CHR 0x0A \<or> c = CHR 0x0C \<or> c = CHR 0x0D \<or> c = CHR 0x20)"

definition strip_padding :: "string \<Rightarrow> string" where
  "strip_padding s =
     (if length s mod 4 = 0 then
        (if suffix ''=='' s then butlast (butlast s)
         else if suffix ''='' s then butlast s else s)
      else s)"

fun b64_groups :: "nat list \<Rightarrow> bytes" where
  "b64_groups (a # b # c # d # rest) =
     [a * 4 + b div 16, (b mod 16) * 16 + c div 4, (c mod 4) * 64 + d] @ b64_groups rest"
| "b64_groups [a, b, c] = [a * 4 + b div 16, (b mod 16) * 16 + c div 4]"
| "b64_groups [a, b] = [a * 4 + b div 16]"
| "b64_groups _ = []"

text \<open>
  \<open>Uint8Array.from(atob(s), c => c.charCodeAt(0))\<close>; \<open>None\<close> is the
  \<open>InvalidCharacterError\<close> of \<open>atob\<close>.
\<close>

definition atob_bytes :: "string \<Rightarrow> bytes option" where
  "atob_bytes s =
     (let t = strip_padding (filter (\<lambda>c. \<not> is_ascii_whitespace c) s)
      in if length t mod 4 = 1 then None
         else map_option b64_groups (those (map b64_value t)))"

text \<open>The three \<open>replace\<close> calls that turn base64 into unpadded base64url, and the two back.\<close>

definition to_base64url :: "string \<Rightarrow> string" where
  "to_base64url s =
     rev (dropWhile (\<lambda>c. c = CHR ''='')
       (rev (map (\<lambda>c. if c = CHR ''+'' then CHR ''-''
                        else if c = CHR ''/'' then CHR ''_'' else c) s)))"

definition from_base64url :: "string \<Rightarrow> string" where
  "from_base64url s =
     map (\<lambda>c. if c = CHR ''-'' then CHR ''+'' else if c = CHR ''_'' then CHR ''/'' else c) s"

text \<open>A template literal prints a missing value as \<open>undefined\<close>.\<close>

definition str_of_opt :: "string option \<Rightarrow> string" where
  "str_of_opt v = (case v of None \<Rightarrow> ''undefined'' | Some s \<Rightarrow> s)"

subsection \<open>Exceptions\<close>

datatype exn =
    NetworkError string
  | IssueFailed nat string
  | TypeError
  | SyntaxError
  | InvalidCharacterError
  | LibraryError
  | CryptoError
  | StorageError

subsection \<open>Browser storage\<close>

text \<open>
  \<open>localStorage\<close> is an association list from keys to strings. The IndexedDB database
  \<open>scopeblind\<close> does not exist, or exists without the object store \<open>identity\<close>, or has the
  store; the store holds the exported public key and the handle of the private key.
  Whether reading and writing either of them throws is said by the world of the call.
\<close>

type_synonym storage = "(string \<times> string) list"

definition getItem :: "storage \<Rightarrow> string \<Rightarrow> string option" where
  "getItem ls k = map_of ls k"

definition setItem :: "storage \<Rightarrow> string \<Rightarrow> string \<Rightarrow> storage" where
  "setItem ls k v = AList.update k v ls"

datatype idb_value = KeyBytes bytes | KeyHandle nat

datatype idb = NoDatabase | NoStore | Store "(string \<times> idb_value) list"

subsection \<open>The world of one call\<close>

text \<open>
  The library \<open>@cloudflare/voprf-ts\<close>, as the client calls it: \<open>blind\<close> returns the
  finalize data and the serialized request, \<open>Evaluation.deserialize\<close> the evaluation,
  \<open>finalize\<close> the list of tokens; \<open>None\<close> is a throw. \<open>finalize\<close> is handed the field
  \<open>finData\<close> as it is, \<open>None\<close> when no blind step has stored one.
\<close>

record voprf_lib =
  lib_blind :: "bytes \<Rightarrow> (bytes \<times> bytes) option"
  lib_deserialize :: "bytes \<Rightarrow> bytes option"
  lib_finalize :: "bytes option \<Rightarrow> bytes \<Rightarrow> bytes list option"

text \<open>
  Everything outside the code that a call depends on: the network, the VOPRF library,
  \<open>crypto.randomUUID()\<close> (what it returns, and whether it can be called at all: it is
  missing where \<open>crypto\<close> is, and outside a secure context), \<open>crypto.subtle\<close> (present or
  not, \<open>digest\<close>, \<open>generateKey\<close>, \<open>exportKey\<close>, \<open>sign\<close>), whether \<open>localStorage\<close> reads
  and writes, whether IndexedDB opens, reads and stores, \<open>JSON.stringify\<close> of
  a byte array and \<open>new Uint8Array(JSON.parse(s))\<close>, \<open>window.location.origin\<close>, and the
  issuer's epoch, which no code reads.
\<close>

record world =
  w_net :: network
  w_lib :: voprf_lib
  randomUUID :: string
  randomUUID_ok :: bool
  storage_get_ok :: bool
  storage_set_ok :: bool
  subtle_present :: bool
  sha256 :: "bytes \<Rightarrow> bytes"
  generateKey :: "(nat \<times> nat) option"
  exportKey :: "nat \<Rightarrow> bytes option"
  subtle_sign :: "nat \<Rightarrow> bytes \<Rightarrow> bytes option"
  idb_open_ok :: bool
  idb_get_ok :: bool
  idb_put_ok :: "string \<Rightarrow> bool"
  json_of_bytes :: "bytes \<Rightarrow> string"
  bytes_of_json :: "string \<Rightarrow> bytes option"
  location_origin :: string
  epoch :: nat

section \<open>The VOPRF client and the spend proof\<close>

record voprf_client =
  finData :: "bytes option"

definition new_voprf_client :: voprf_client where
  "new_voprf_client = \<lparr>finData = None\<rparr>"

definition generateBlindRequest ::
  "voprf_lib \<Rightarrow> voprf_client \<Rightarrow> string \<Rightarrow> (exn + bytes) \<times> voprf_client" where
  "generateBlindRequest l cl input =
     (case lib_blind l (encode_utf8 input) of
        None \<Rightarrow> (Inl LibraryError, cl)
      | Some (fd, evalReq) \<Rightarrow> (Inr evalReq, cl\<lparr>finData := Some fd\<rparr>))"

text \<open>\<open>tokens[0]\<close> is \<open>undefined\<close> when the library returns no token.\<close>

definition finalize ::
  "voprf_lib \<Rightarrow> voprf_client \<Rightarrow> bytes \<Rightarrow> (exn + bytes option) \<times> voprf_client" where
  "finalize l cl evaluation =
     (case lib_deserialize l evaluation of
        None \<Rightarrow> (Inl LibraryError, cl)
      | Some evalObj \<Rightarrow>
          (case lib_finalize l (finData cl) evalObj of
             None \<Rightarrow> (Inl LibraryError, cl)
           | Some tokens \<Rightarrow> (Inr (case tokens of [] \<Rightarrow> None | t # _ \<Rightarrow> Some t), cl)))"

text \<open>\<open>crypto.subtle.digest\<close> throws where \<open>crypto.subtle\<close> is missing.\<close>

definition generateSpendProof :: "world \<Rightarrow> bytes \<Rightarrow> string \<Rightarrow> exn + string" where
  "generateSpendProof w token data =
     (let combined = token @ encode_utf8 data
      in if \<not> subtle_present w then Inl TypeError
         else Inr (btoa_bytes (sha256 w combined)))"

section \<open>The widget's user interface\<close>

text \<open>
  \<open>ui_badge\<close>: the badge element exists. \<open>ui_modal\<close>: \<open>None\<close> while no modal element exists,
  otherwise whether it has the class \<open>visible\<close>.
\<close>

record ui =
  ui_badge :: bool
  ui_modal :: "bool option"

definition new_ui :: ui where
  "new_ui = \<lparr>ui_badge = False, ui_modal = None\<rparr>"

definition showBadge :: "ui \<Rightarrow> ui" where
  "showBadge u = (if ui_badge u then u else u\<lparr>ui_badge := True\<rparr>)"

definition createModal :: "ui \<Rightarrow> ui" where
  "createModal u = u\<lparr>ui_modal := Some False\<rparr>"

definition showQuotaExceeded :: "ui \<Rightarrow> ui" where
  "showQuotaExceeded u =
     (let u1 = (if ui_modal u = None then createModal u else u)
      in u1\<lparr>ui_modal := map_option (\<lambda>_. True) (ui_modal u1)\<rparr>)"

section \<open>Holder binding\<close>

datatype identity_type = Webcrypto | Fallback

record device_identity =
  di_type :: identity_type
  di_publicKey :: "idb_value option"
  di_deviceId :: "string option"

text \<open>
  \<open>openDB(name, 1, options)\<close>. A database that does not exist yet is created, with the
  object store when the caller passes the \<open>upgrade\<close> callback and without it otherwise;
  an existing database is already at version 1 and is left as it is.
\<close>

definition openDB :: "world \<Rightarrow> idb \<Rightarrow> bool \<Rightarrow> (exn + unit) \<times> idb" where
  "openDB w db upgrade =
     (if \<not> idb_open_ok w then (Inl StorageError, db)
      else (Inr (),
            case db of
              NoDatabase \<Rightarrow> (if upgrade then Store [] else NoStore)
            | NoStore \<Rightarrow> NoStore
            | Store m \<Rightarrow> Store m))"

text \<open>\<open>db.get(STORE_NAME, key)\<close>: the transaction throws when the store is missing.\<close>

definition db_get :: "world \<Rightarrow> idb \<Rightarrow> string \<Rightarrow> exn + idb_value option" where
  "db_get w db key =
     (case db of
        Store m \<Rightarrow> (if idb_get_ok w then Inr (map_of m key) else Inl StorageError)
      | _ \<Rightarrow> Inl StorageError)"

definition db_put :: "world \<Rightarrow> idb \<Rightarrow> idb_value \<Rightarrow> string \<Rightarrow> (exn + unit) \<times> idb" where
  "db_put w db v key =
     (case db of
        Store m \<Rightarrow>
          (if idb_put_ok w key then (Inr (), Store (AList.update key v m))
           else (Inl StorageError, db))
      | _ \<Rightarrow> (Inl StorageError, db))"

definition getWebCryptoIdentity :: "world \<Rightarrow> idb \<Rightarrow> (exn + device_identity) \<times> idb" where
  "getWebCryptoIdentity w db0 =
     (case openDB w db0 True of
        (Inl e, db) \<Rightarrow> (Inl e, db)
      | (Inr _, db) \<Rightarrow>
          (case db_get w db ''publicKey'' of
             Inl e \<Rightarrow> (Inl e, db)
           | Inr (Some publicKeyBytes) \<Rightarrow>
               (Inr \<lparr>di_type = Webcrypto, di_publicKey = Some publicKeyBytes,
                     di_deviceId = None\<rparr>, db)
           | Inr None \<Rightarrow>
               (case generateKey w of
                  None \<Rightarrow> (Inl CryptoError, db)
                | Some (publicHandle, privateHandle) \<Rightarrow>
                    (case exportKey w publicHandle of
                       None \<Rightarrow> (Inl CryptoError, db)
                     | Some spki \<Rightarrow>
                         (case db_put w db (KeyBytes spki) ''publicKey'' of
                            (Inl e, db1) \<Rightarrow> (Inl e, db1)
                          | (Inr _, db1) \<Rightarrow>
                              (case db_put w db1 (KeyHandle privateHandle) ''privateKey'' of
                                 (Inl e, db2) \<Rightarrow> (Inl e, db2)
                               | (Inr _, db2) \<Rightarrow>
                                   (Inr \<lparr>di_type = Webcrypto,
                                         di_publicKey = Some (KeyBytes spki),
                                         di_deviceId = None\<rparr>, db2)))))))"

text \<open>
  \<open>getFallbackIdentity\<close> stands outside every \<open>try\<close>: a throw of \<open>localStorage\<close> or of
  \<open>crypto.randomUUID()\<close> is a throw of the function.
\<close>

definition getFallbackIdentity ::
  "world \<Rightarrow> storage \<Rightarrow> (exn + device_identity) \<times> storage" where
  "getFallbackIdentity w ls =
     (if \<not> storage_get_ok w then (Inl StorageError, ls)
      else
        (let deviceId = getItem ls ''sb_device_id''
         in if \<not> truthy deviceId then
              (if \<not> randomUUID_ok w then (Inl TypeError, ls)
               else if \<not> storage_set_ok w then (Inl StorageError, ls)
               else
                 (Inr \<lparr>di_type = Fallback, di_publicKey = None,
                       di_deviceId = Some (randomUUID w)\<rparr>,
                  setItem ls ''sb_device_id'' (randomUUID w)))
            else (Inr \<lparr>di_type = Fallback, di_publicKey = None, di_deviceId = deviceId\<rparr>,
                  ls)))"

definition getOrCreateDeviceIdentity ::
  "world \<Rightarrow> storage \<times> idb \<Rightarrow> (exn + device_identity) \<times> (storage \<times> idb)" where
  "getOrCreateDeviceIdentity w b =
     (case b of (ls, db) \<Rightarrow>
        if subtle_present w then
          (case getWebCryptoIdentity w db of
             (Inr ident, db1) \<Rightarrow> (Inr ident, (ls, db1))
           | (Inl e, db1) \<Rightarrow>
               (case getFallbackIdentity w ls of (r, ls1) \<Rightarrow> (r, (ls1, db1))))
        else (case getFallbackIdentity w ls of (r, ls1) \<Rightarrow> (r, (ls1, db))))"

text \<open>
  \<open>signRequest\<close>: every throw inside the \<open>try\<close> ends in the \<open>catch\<close>, which returns \<open>null\<close>.
  \<open>crypto.subtle.sign\<close> throws where \<open>crypto.subtle\<close> is missing and for a stored value
  that is not a key.
\<close>

definition signRequest ::
  "world \<Rightarrow> idb \<Rightarrow> string \<Rightarrow> string \<Rightarrow> string option \<Rightarrow> string option \<times> idb" where
  "signRequest w db0 method path body =
     (case openDB w db0 False of
        (Inl e, db) \<Rightarrow> (None, db)
      | (Inr _, db) \<Rightarrow>
          (case db_get w db ''privateKey'' of
             Inl e \<Rightarrow> (None, db)
           | Inr None \<Rightarrow> (None, db)
           | Inr (Some privateKey) \<Rightarrow>
               (let canonical = method @ '':'' @ path @ '':'' @
                                  (if truthy body then the body else []);
                    data = encode_utf8 canonical
                in if \<not> subtle_present w then (None, db)
                   else (case privateKey of
                           KeyBytes _ \<Rightarrow> (None, db)
                         | KeyHandle h \<Rightarrow>
                             (case subtle_sign w h data of
                                None \<Rightarrow> (None, db)
                              | Some signature \<Rightarrow> (Some (btoa_bytes signature), db))))))"

text \<open>Secure key generation is unavailable, or it fails, in this world on this database.\<close>

definition keygen_unavailable :: "world \<Rightarrow> idb \<Rightarrow> bool" where
  "keygen_unavailable w db = (\<not> subtle_present w \<or> isl (fst (getWebCryptoIdentity w db)))"

text \<open>The store never holds a private key without the public key written before it.\<close>

definition keys_consistent :: "idb \<Rightarrow> bool" where
  "keys_consistent db =
     (case db of
        Store m \<Rightarrow> map_of m ''privateKey'' = None \<or> map_of m ''publicKey'' \<noteq> None
      | _ \<Rightarrow> True)"

section \<open>The widget\<close>

record config =
  siteId :: string
  issuerUrl :: "string option"
  proxyUrl :: "string option"
  cfg_showBadge :: "bool option"

text \<open>
  The fields of \<open>ScopeBlindWidget\<close> (without \<open>lastStats\<close>, which only records timings),
  and the browser's storage the widget reads and writes.
\<close>

record state =
  config :: config
  voprfClient :: voprf_client
  token :: "bytes option"
  widgetUI :: ui
  deviceIdentity :: "device_identity option"
  localStorage :: storage
  indexedDB :: idb

text \<open>\<open>new ScopeBlindWidget()\<close>, on a page whose storage is \<open>ls\<close> and \<open>db\<close>.\<close>

definition constructor :: "storage \<Rightarrow> idb \<Rightarrow> state" where
  "constructor ls db =
     \<lparr>config = \<lparr>siteId = [], issuerUrl = None, proxyUrl = None, cfg_showBadge = None\<rparr>,
      voprfClient = new_voprf_client, token = None, widgetUI = new_ui,
      deviceIdentity = None, localStorage = ls, indexedDB = db\<rparr>"

definition token_key :: "state \<Rightarrow> string" where
  "token_key s = ''sb_token_'' @ siteId (config s)"

definition issue_request :: "state \<Rightarrow> bytes \<Rightarrow> http_request" where
  "issue_request s request =
     \<lparr>rq_url = str_of_opt (issuerUrl (config s)) @ ''/issue'',
      rq_method = ''POST'',
      rq_headers = [(''Content-Type'', ''application/json'')],
      rq_body = Some (Json (JObj
        [(''evalReqB64'', JStr (to_base64url (btoa_bytes request)))]))\<rparr>"

text \<open>
  \<open>const { evalB64 } = await response.json()\<close> followed by \<open>evalB64.replace\<close>: anything
  but an object with a string under \<open>evalB64\<close> ends in a \<open>TypeError\<close>.
\<close>

definition evalB64_of :: "json \<Rightarrow> string option" where
  "evalB64_of j =
     (case j of
        JObj members \<Rightarrow> (case map_of members ''evalB64'' of Some (JStr v) \<Rightarrow> Some v | _ \<Rightarrow> None)
      | _ \<Rightarrow> None)"

text \<open>
  The \<open>try\<close> block of \<open>ensureToken\<close>; the \<open>catch\<close> logs and throws the error again. The
  third component lists the \<open>fetch\<close> calls made.
\<close>

definition mint :: "world \<Rightarrow> state \<Rightarrow> (exn + bytes) \<times> state \<times> http_request list" where
  "mint w s =
     (if \<not> randomUUID_ok w then (Inl TypeError, s, [])
      else case generateBlindRequest (w_lib w) (voprfClient s) (randomUUID w) of
        (Inl e, cl) \<Rightarrow> (Inl e, s\<lparr>voprfClient := cl\<rparr>, [])
      | (Inr request, cl) \<Rightarrow>
          (let s1 = s\<lparr>voprfClient := cl\<rparr>;
               ireq = issue_request s1 request
           in (case w_net w ireq of
                 Rejects msg \<Rightarrow> (Inl (NetworkError msg), s1, [ireq])
               | Resolves response \<Rightarrow>
                   if \<not> rs_ok response then
                     (Inl (IssueFailed (rs_status response) (rs_text response)), s1, [ireq])
                   else
                     (case rs_json response of
                        None \<Rightarrow> (Inl SyntaxError, s1, [ireq])
                      | Some j \<Rightarrow>
                          (case evalB64_of j of
                             None \<Rightarrow> (Inl TypeError, s1, [ireq])
                           | Some evalB64 \<Rightarrow>
                               (case atob_bytes (from_base64url evalB64) of
                                  None \<Rightarrow> (Inl InvalidCharacterError, s1, [ireq])
                                | Some evalBytes \<Rightarrow>
                                    (case finalize (w_lib w) (voprfClient s1) evalBytes of
                                       (Inl e, cl2) \<Rightarrow>
                                         (Inl e, s1\<lparr>voprfClient := cl2\<rparr>, [ireq])
                                     | (Inr tok, cl2) \<Rightarrow>
                                         (let s2 = s1\<lparr>voprfClient := cl2, token := tok\<rparr>
                                          in (case tok of
                                                None \<Rightarrow> (Inl TypeError, s2, [ireq])
                                              | Some t \<Rightarrow>
                                                  if \<not> storage_set_ok w then
                                                    (Inl StorageError, s2, [ireq])
                                                  else
                                                    (Inr t,
                                                     s2\<lparr>localStorage :=
                                                          setItem (localStorage s2) (token_key s2)
                                                            (json_of_bytes w t)\<rparr>,
                                                     [ireq]))))))))))"

definition ensureToken :: "world \<Rightarrow> state \<Rightarrow> (exn + bytes) \<times> state \<times> http_request list" where
  "ensureToken w s =
     (case token s of
        Some t \<Rightarrow> (Inr t, s, [])
      | None \<Rightarrow>
          if \<not> storage_get_ok w then (Inl StorageError, s, [])
          else
          (let stored = getItem (localStorage s) (token_key s)
           in if truthy stored then
                (case bytes_of_json w (the stored) of
                   None \<Rightarrow> (Inl SyntaxError, s, [])
                 | Some t \<Rightarrow> (Inr t, s\<lparr>token := Some t\<rparr>, []))
              else mint w s))"

definition getToken :: "world \<Rightarrow> state \<Rightarrow> (exn + string) \<times> state \<times> http_request list" where
  "getToken w s =
     (case ensureToken w s of
        (Inl e, s1, calls) \<Rightarrow> (Inl e, s1, calls)
      | (Inr t, s1, calls) \<Rightarrow> (Inr (btoa_bytes t), s1, calls))"

definition default_issuer :: string where
  "default_issuer = ''https://issuer.scopeblind.com''"

definition default_proxy :: string where
  "default_proxy = ''https://proxy.scopeblind.com''"

definition init :: "world \<Rightarrow> state \<Rightarrow> config \<Rightarrow> (exn + unit) \<times> state \<times> http_request list" where
  "init w s cfg =
     (let s1 = s\<lparr>config :=
                  \<lparr>siteId = siteId cfg,
                   issuerUrl = Some (if truthy (issuerUrl cfg) then the (issuerUrl cfg)
                                     else default_issuer),
                   proxyUrl = Some (if truthy (proxyUrl cfg) then the (proxyUrl cfg)
                                    else default_proxy),
                   cfg_showBadge = Some (cfg_showBadge cfg \<noteq> Some False)\<rparr>\<rparr>
      in (case getOrCreateDeviceIdentity w (localStorage s1, indexedDB s1) of
            (Inl e, (ls, db)) \<Rightarrow> (Inl e, s1\<lparr>localStorage := ls, indexedDB := db\<rparr>, [])
          | (Inr ident, (ls, db)) \<Rightarrow>
              (let s2 = s1\<lparr>deviceIdentity := Some ident, localStorage := ls, indexedDB := db\<rparr>;
                   s3 = (if cfg_showBadge (config s2) = Some True
                         then s2\<lparr>widgetUI := showBadge (widgetUI s2)\<rparr> else s2)
               in (case ensureToken w s3 of
                     (Inl e, s4, calls) \<Rightarrow> (Inl e, s4, calls)
                   | (Inr t, s4, calls) \<Rightarrow> (Inr (), s4, calls)))))"

text \<open>The \<open>RequestInit\<close> fields the widget reads; \<open>opt_body\<close> is \<open>String(options.body)\<close>.\<close>

record request_init =
  opt_method :: "string option"
  opt_headers :: "header list"
  opt_body :: "string option"

definition new_Headers :: "header list \<Rightarrow> header list" where
  "new_Headers hs = map (\<lambda>kv. (toLowerCase (fst kv), snd kv)) hs"

text \<open>
  \<open>fetch\<close> up to the network call (the source's lines from \<open>ensureToken\<close> to the headers):
  the request that goes to the proxy, or the exception thrown before it.
\<close>

definition fetch_prepare ::
  "world \<Rightarrow> state \<Rightarrow> string \<Rightarrow> request_init \<Rightarrow>
     (exn + http_request) \<times> state \<times> http_request list" where
  "fetch_prepare w s url options =
     (case ensureToken w s of
        (Inl e, s1, calls) \<Rightarrow> (Inl e, s1, calls)
      | (Inr _, s1, calls) \<Rightarrow>
          (let method = (if truthy (opt_method options) then the (opt_method options)
                         else ''GET'')
           in (case URL_new url (Some (location_origin w)) of
                 None \<Rightarrow> (Inl TypeError, s1, calls)
               | Some parsed \<Rightarrow>
                   (let path = url_pathname parsed;
                        bodyString = (if truthy (opt_body options) then opt_body options
                                      else None)
                    in (case token s1 of
                          None \<Rightarrow> (Inl TypeError, s1, calls)
                        | Some t \<Rightarrow>
                            (case generateSpendProof w t (method @ '':'' @ path) of
                               Inl e \<Rightarrow> (Inl e, s1, calls)
                             | Inr proof \<Rightarrow>
                                 (let targetUrl = str_of_opt (proxyUrl (config s1)) @ ''/'' @
                                                    siteId (config s1) @ path;
                                      h1 = headers_set (new_Headers (opt_headers options))
                                             ''X-ScopeBlind-Proof'' proof;
                                      h2 = headers_set h1 ''X-ScopeBlind-Site''
                                             (siteId (config s1))
                                  in (case signRequest w (indexedDB s1) method path bodyString of
                                        (signature, db) \<Rightarrow>
                                          (let s2 = s1\<lparr>indexedDB := db\<rparr>;
                                               h3 =
                                                 (case signature of
                                                    Some sg \<Rightarrow>
                                                      headers_set h2 ''X-ScopeBlind-Signature'' sg
                                                  | None \<Rightarrow>
                                                      (case deviceIdentity s2 of
                                                         None \<Rightarrow> h2
                                                       | Some ident \<Rightarrow>
                                                           if di_type ident = Fallback \<and>
                                                              truthy (di_deviceId ident)
                                                           then headers_set h2 ''X-ScopeBlind-Device''
                                                                  (the (di_deviceId ident))
                                                           else h2))
                                           in (Inr \<lparr>rq_url = targetUrl,
                                                    rq_method =
                                                      (case opt_method options of
                                                         None \<Rightarrow> ''GET'' | Some m \<Rightarrow> m),
                                                    rq_headers = h3,
                                                    rq_body = map_option Raw (opt_body options)\<rparr>,
                                               s2, calls))))))))))"

text \<open>\<open>ScopeBlindWidget.fetch\<close>: the network call and what follows it.\<close>

definition fetch :: "world \<Rightarrow> state \<Rightarrow> string \<Rightarrow> request_init \<Rightarrow>
     (exn + http_response) \<times> state \<times> http_request list" where
  "fetch w s url options =
     (case fetch_prepare w s url options of
        (Inl e, s1, calls) \<Rightarrow> (Inl e, s1, calls)
      | (Inr preq, s1, calls) \<Rightarrow>
          (case w_net w preq of
             Rejects msg \<Rightarrow> (Inl (NetworkError msg), s1, calls @ [preq])
           | Resolves response \<Rightarrow>
               (let s2 = (if rs_status response = 429 \<or> rs_status response = 402
                          then s1\<lparr>widgetUI := showQuotaExceeded (widgetUI s1)\<rparr> else s1)
                in (Inr response, s2, calls @ [preq]))))"

subsection \<open>Sample worlds for the widget\<close>

text \<open>
  The JSON text of a byte array as \<open>JSON.stringify(Array.from(bytes))\<close> writes it, and
  the reading of such a text back into bytes.
\<close>

fun decimal :: "nat \<Rightarrow> string" where
  "decimal n =
     (if n < 10 then [char_of (48 + n)]
      else decimal (n div 10) @ [char_of (48 + n mod 10)])"

fun join_commas :: "string list \<Rightarrow> string" where
  "join_commas [] = []"
| "join_commas [x] = x"
| "join_commas (x # y # rest) = x @ '','' @ join_commas (y # rest)"

definition stringify_bytes :: "bytes \<Rightarrow> string" where
  "stringify_bytes bs = ''['' @ join_commas (map decimal bs) @ '']''"

fun split_commas :: "string \<Rightarrow> string \<Rightarrow> string list" where
  "split_commas cur [] = [rev cur]"
| "split_commas cur (c # cs) =
     (if c = CHR '','' then rev cur # split_commas [] cs else split_commas (c # cur) cs)"

definition is_digit :: "char \<Rightarrow> bool" where
  "is_digit c = (48 \<le> (of_char c :: nat) \<and> (of_char c :: nat) \<le> 57)"

definition nat_of_decimal :: "string \<Rightarrow> nat option" where
  "nat_of_decimal ds =
     (if ds = [] \<or> \<not> list_all is_digit ds then None
      else Some (foldl (\<lambda>a c. 10 * a + ((of_char c :: nat) - 48)) 0 ds))"

definition parse_bytes :: "string \<Rightarrow> bytes option" where
  "parse_bytes txt =
     (case txt of
        [] \<Rightarrow> None
      | c # rest \<Rightarrow>
          if c \<noteq> CHR ''['' \<or> rest = [] \<or> last rest \<noteq> CHR '']'' then None
          else if butlast rest = [] then Some []
          else map_option (map (\<lambda>n. n mod 256))
                 (those (map nat_of_decimal (split_commas [] (butlast rest)))))"

text \<open>
  A stand-in for the VOPRF library: the finalize data is the reversed input, the token
  is made of the finalize data and the evaluation, and no token comes without them.
\<close>

definition sample_lib :: voprf_lib where
  "sample_lib =
     \<lparr>lib_blind = (\<lambda>input. Some (rev input, map (\<lambda>b. (b + 1) mod 256) input)),
      lib_deserialize = (\<lambda>ev. if ev = [] then None else Some ev),
      lib_finalize = (\<lambda>fd ev. case fd of None \<Rightarrow> None | Some d \<Rightarrow> Some [take 2 d @ ev])\<rparr>"

definition sample_world :: "network \<Rightarrow> world" where
  "sample_world n =
     \<lparr>w_net = n, w_lib = sample_lib, randomUUID = ''u1'', randomUUID_ok = True,
      storage_get_ok = True, storage_set_ok = True, subtle_present = True,
      sha256 = (\<lambda>bs. [length bs mod 256, sum_list bs mod 256]),
      generateKey = Some (1, 2),
      exportKey = (\<lambda>h. Some [48, h]),
      subtle_sign = (\<lambda>h data. Some (h # take 2 data)),
      idb_open_ok = True, idb_get_ok = True, idb_put_ok = (\<lambda>k. True),
      json_of_bytes = stringify_bytes, bytes_of_json = parse_bytes,
      location_origin = ''https://shop.example.com'', epoch = 0\<rparr>"

definition evaluation_response :: "string \<Rightarrow> http_response" where
  "evaluation_response e = plain_response 200 [] (Some (JObj [(''evalB64'', JStr e)]))"

text \<open>An issuer that answers with the evaluation \<open>e\<close>, and a proxy that answers \<open>st\<close>.\<close>

definition net_issuer :: "string \<Rightarrow> nat \<Rightarrow> network" where
  "net_issuer e st rq =
     (if rq_url rq = ''https://issuer.scopeblind.com/issue''
      then Resolves (evaluation_response e)
      else Resolves (plain_response st ''body'' None))"

text \<open>An issuer that cannot be reached, and one that answers 500.\<close>

definition net_issuer_down :: network where
  "net_issuer_down rq = Rejects ''offline''"

definition net_issuer_500 :: network where
  "net_issuer_500 rq = Resolves (plain_response 500 ''issuer error'' None)"

text \<open>A proxy that cannot be reached, behind an issuer that answers.\<close>

definition net_proxy_down :: network where
  "net_proxy_down rq =
     (if rq_url rq = ''https://issuer.scopeblind.com/issue''
      then Resolves (evaluation_response ''AQID'')
      else Rejects ''offline'')"

text \<open>A widget on a fresh page of an empty browser, configured for the site \<open>site_42\<close>.\<close>

definition fresh_widget :: state where
  "fresh_widget =
     (constructor [] NoDatabase)
       \<lparr>config := \<lparr>siteId = ''site_42'', issuerUrl = Some default_issuer,
                    proxyUrl = Some default_proxy, cfg_showBadge = Some True\<rparr>\<rparr>"

text \<open>The world of a first call, and the world of a call in the issuer's next epoch.\<close>

definition world_epoch0 :: world where
  "world_epoch0 = sample_world (net_issuer ''AQID'' 200)"

definition world_epoch1 :: world where
  "world_epoch1 = (sample_world (net_issuer ''BAUG'' 200))\<lparr>randomUUID := ''u2'', epoch := 1\<rparr>"

definition post_options :: request_init where
  "post_options = \<lparr>opt_method = Some ''POST'', opt_headers = [], opt_body = None\<rparr>"

text \<open>
  A browser whose IndexedDB stores the public key and fails on the private key, and a
  page outside a secure context, where neither \<open>crypto.subtle\<close> nor
  \<open>crypto.randomUUID\<close> exists.
\<close>

definition world_private_put_fails :: world where
  "world_private_put_fails =
     (sample_world net_issuer_down)\<lparr>idb_put_ok := (\<lambda>k. k \<noteq> ''privateKey'')\<rparr>"

definition world_insecure_context :: world where
  "world_insecure_context =
     (sample_world net_issuer_down)\<lparr>subtle_present := False, randomUUID_ok := False\<rparr>"

section \<open>Gateway: verification failures\<close>

lemma api_handler_verifier_denies:
  assumes "carries_proof_or_token c"
    and "net (verifier_call env c) = Resolves r"
    and "\<not> rs_ok r"
  shows "api_handler U net env c =
           (Json_reply (JObj [(''error'', JStr ''Invalid ScopeBlind proof''),
                              (''details'', JStr (rs_text r))]) 403,
            [verifier_call env c])"
  using assms
  by (auto simp: api_handler_def carries_proof_or_token_def verifier_call_def Let_def)

lemma api_handler_verifier_unreachable:
  assumes "carries_proof_or_token c"
    and "net (verifier_call env c) = Rejects e"
  shows "api_handler U net env c =
           (Json_reply (JObj [(''error'', JStr ''Verification service unavailable'')]) 503,
            [verifier_call env c])"
  using assms
  by (auto simp: api_handler_def carries_proof_or_token_def verifier_call_def Let_def)

text \<open>
  Claim C1. For an inbound request that carries a proof or token header: when the verifier
  answers with a status outside 200..299 the handler replies 403 with the verifier's text
  as detail, when the call to the verifier rejects it replies 503, and in both cases the
  only \<open>fetch\<close> made is the one to the verifier: the backend is not called.
\<close>

theorem C1_unverified_never_forwarded:
  assumes "carries_proof_or_token c"
  shows "(\<forall>r. net (verifier_call env c) = Resolves r \<and> \<not> rs_ok r \<longrightarrow>
            api_handler U net env c =
              (Json_reply (JObj [(''error'', JStr ''Invalid ScopeBlind proof''),
                                 (''details'', JStr (rs_text r))]) 403,
               [verifier_call env c]))
       \<and> (\<forall>e. net (verifier_call env c) = Rejects e \<longrightarrow>
            api_handler U net env c =
              (Json_reply (JObj [(''error'', JStr ''Verification service unavailable'')]) 503,
               [verifier_call env c]))"
  using assms api_handler_verifier_denies api_handler_verifier_unreachable by blast

theorem C1_witness:
  "carries_proof_or_token sample_post
   \<and> net_verifier_denies (verifier_call sample_env sample_post) =
       Resolves (plain_response 401 ''nullifier already spent'' None)
   \<and> \<not> rs_ok (plain_response 401 ''nullifier already spent'' None)
   \<and> api_handler sample_urls net_verifier_denies sample_env sample_post =
       (Json_reply (JObj [(''error'', JStr ''Invalid ScopeBlind proof''),
                          (''details'', JStr ''nullifier already spent'')]) 403,
        [verifier_call sample_env sample_post])
   \<and> net_verifier_down (verifier_call sample_env sample_post) = Rejects ''connect failed''
   \<and> api_handler sample_urls net_verifier_down sample_env sample_post =
       (Json_reply (JObj [(''error'', JStr ''Verification service unavailable'')]) 503,
        [verifier_call sample_env sample_post])"
proof -
  have h: "carries_proof_or_token sample_post"
    by code_simp
  have d: "net_verifier_denies (verifier_call sample_env sample_post) =
             Resolves (plain_response 401 ''nullifier already spent'' None)"
    by code_simp
  have n: "\<not> rs_ok (plain_response 401 ''nullifier already spent'' None)"
    by code_simp
  have u: "net_verifier_down (verifier_call sample_env sample_post) = Rejects ''connect failed''"
    by code_simp
  have t: "rs_text (plain_response 401 ''nullifier already spent'' None) =
             ''nullifier already spent''"
    by (simp add: plain_response_def)
  show ?thesis
    using h d n u t
      C1_unverified_never_forwarded [OF h, of net_verifier_denies sample_env sample_urls]
      C1_unverified_never_forwarded [OF h, of net_verifier_down sample_env sample_urls]
    by simp
qed

section \<open>Gateway: what a 2xx answer of the verifier leads to\<close>

text \<open>
  Claim C9, as stated, fails: a 2xx answer whose body is not JSON makes \<open>json()\<close> reject
  inside the \<open>try\<close>, and the handler replies 503 without calling the backend.
\<close>

theorem C9_counterexample:
  "carries_proof_or_token sample_post
   \<and> net_verifier_not_json (verifier_call sample_env sample_post) =
       Resolves (plain_response 200 ''OK'' None)
   \<and> rs_ok (plain_response 200 ''OK'' None)
   \<and> api_handler sample_urls net_verifier_not_json sample_env sample_post =
       (Json_reply (JObj [(''error'', JStr ''Verification service unavailable'')]) 503,
        [verifier_call sample_env sample_post])"
  by code_simp

lemma api_handler_not_json:
  assumes "carries_proof_or_token c"
    and "net (verifier_call env c) = Resolves r"
    and "rs_ok r"
    and "rs_json r = None"
  shows "api_handler U net env c =
           (Json_reply (JObj [(''error'', JStr ''Verification service unavailable'')]) 503,
            [verifier_call env c])"
  using assms
  by (auto simp: api_handler_def carries_proof_or_token_def verifier_call_def Let_def)

lemma api_handler_verified:
  assumes "carries_proof_or_token c"
    and "net (verifier_call env c) = Resolves r"
    and "rs_ok r"
    and "rs_json r = Some j"
  shows "api_handler U net env c = forward U net env c [verifier_call env c]"
  using assms
  by (auto simp: api_handler_def carries_proof_or_token_def verifier_call_def Let_def)

lemma forward_calls:
  assumes "truthy (BACKEND_URL env)"
    and "new_URL U (req_path c) (BACKEND_URL env) = Some t"
    and "new_URL U (req_url c) None = Some u"
  shows "snd (forward U net env c calls) =
           calls @ [backend_request c (to_string U (set_search U t (get_search U u)))
                      (get_host U (set_search U t (get_search U u)))]"
  using assms by (simp add: forward_def Let_def split: fetch_result.splits)


text \<open>
  Claim C9, amended. For an inbound request that carries a proof or token header, when the
  verifier answers 2xx: if the body parses as JSON, the handler goes on to the forwarding
  step whatever the JSON value is (the \<open>allowed\<close> field is never read), and with a backend
  URL configured and the URLs well formed the backend is called; if the body is not
  JSON, the handler replies 503 and the only \<open>fetch\<close> made is the one to the verifier.
\<close>

theorem C9_any_json_is_forwarded:
  assumes "carries_proof_or_token c"
    and "net (verifier_call env c) = Resolves r"
    and "rs_ok r"
  shows "(rs_json r = None \<longrightarrow>
            api_handler U net env c =
              (Json_reply (JObj [(''error'', JStr ''Verification service unavailable'')]) 503,
               [verifier_call env c]))
       \<and> (\<forall>j. rs_json r = Some j \<longrightarrow>
            api_handler U net env c = forward U net env c [verifier_call env c]
          \<and> (\<forall>t u. truthy (BACKEND_URL env) \<and>
                   new_URL U (req_path c) (BACKEND_URL env) = Some t \<and>
                   new_URL U (req_url c) None = Some u \<longrightarrow>
                   snd (api_handler U net env c) =
                     [verifier_call env c,
                      backend_request c (to_string U (set_search U t (get_search U u)))
                        (get_host U (set_search U t (get_search U u)))]))"
proof -
  have p1: "rs_json r = None \<longrightarrow>
            api_handler U net env c =
              (Json_reply (JObj [(''error'', JStr ''Verification service unavailable'')]) 503,
               [verifier_call env c])"
    using api_handler_not_json [where net = net and env = env and c = c and U = U,
        OF assms(1) assms(2) assms(3)]
    by blast
  have p2: "\<forall>j. rs_json r = Some j \<longrightarrow>
            api_handler U net env c = forward U net env c [verifier_call env c]
          \<and> (\<forall>t u. truthy (BACKEND_URL env) \<and>
                   new_URL U (req_path c) (BACKEND_URL env) = Some t \<and>
                   new_URL U (req_url c) None = Some u \<longrightarrow>
                   snd (api_handler U net env c) =
                     [verifier_call env c,
                      backend_request c (to_string U (set_search U t (get_search U u)))
                        (get_host U (set_search U t (get_search U u)))])"
  proof (intro allI impI)
    fix j
    assume j: "rs_json r = Some j"
    have h: "api_handler U net env c = forward U net env c [verifier_call env c]"
      using api_handler_verified [where net = net and env = env and c = c and U = U,
          OF assms(1) assms(2) assms(3) j] .
    have f: "\<forall>t u. truthy (BACKEND_URL env) \<and>
                   new_URL U (req_path c) (BACKEND_URL env) = Some t \<and>
                   new_URL U (req_url c) None = Some u \<longrightarrow>
                   snd (api_handler U net env c) =
                     [verifier_call env c,
                      backend_request c (to_string U (set_search U t (get_search U u)))
                        (get_host U (set_search U t (get_search U u)))]"
      using forward_calls [of env U c _ _ net "[verifier_call env c]"] by (simp add: h)
    show "api_handler U net env c = forward U net env c [verifier_call env c]
          \<and> (\<forall>t u. truthy (BACKEND_URL env) \<and>
                   new_URL U (req_path c) (BACKEND_URL env) = Some t \<and>
                   new_URL U (req_url c) None = Some u \<longrightarrow>
                   snd (api_handler U net env c) =
                     [verifier_call env c,
                      backend_request c (to_string U (set_search U t (get_search U u)))
                        (get_host U (set_search U t (get_search U u)))])"
      using h f by (rule conjI)
  qed
  show ?thesis using p1 p2 by (rule conjI)
qed

theorem C9_witness:
  "carries_proof_or_token sample_post
   \<and> net_verifier_disallows (verifier_call sample_env sample_post) =
       Resolves (plain_response 200 (allowed_text False)
                   (Some (JObj [(''allowed'', JBool False)])))
   \<and> rs_ok (plain_response 200 (allowed_text False) (Some (JObj [(''allowed'', JBool False)])))
   \<and> truthy (BACKEND_URL sample_env)
   \<and> snd (api_handler sample_urls net_verifier_disallows sample_env sample_post) =
       [verifier_call sample_env sample_post,
        \<lparr>rq_url = ''https://api.example.com/api/chat?x=1'', rq_method = ''POST'',
         rq_headers = [(''content-type'', ''text/plain''), (''host'', ''api.example.com'')],
         rq_body = Some (Raw ''hello'')\<rparr>]
   \<and> net_verifier_not_json (verifier_call sample_env sample_post) =
       Resolves (plain_response 200 ''OK'' None)
   \<and> rs_ok (plain_response 200 ''OK'' None)
   \<and> api_handler sample_urls net_verifier_not_json sample_env sample_post =
       (Json_reply (JObj [(''error'', JStr ''Verification service unavailable'')]) 503,
        [verifier_call sample_env sample_post])"
proof -
  let ?r = "plain_response 200 (allowed_text False) (Some (JObj [(''allowed'', JBool False)]))"
  let ?n = "plain_response 200 ''OK'' None"
  let ?t = "\<lparr>url_scheme = ''https'', url_host = ''api.example.com'',
             url_pathname = ''/api/chat'', url_search = [], url_hash = []\<rparr>"
  let ?u = "\<lparr>url_scheme = ''https'', url_host = ''gw.example.com'',
             url_pathname = ''/api/chat'', url_search = ''?x=1'', url_hash = []\<rparr>"
  let ?tgt = "set_search sample_urls ?t (get_search sample_urls ?u)"
  have h1: "carries_proof_or_token sample_post" by code_simp
  have h2: "net_verifier_disallows (verifier_call sample_env sample_post) = Resolves ?r"
    by code_simp
  have h3: "rs_ok ?r" by code_simp
  have h4: "rs_json ?r = Some (JObj [(''allowed'', JBool False)])"
    by (simp add: plain_response_def)
  have h5: "truthy (BACKEND_URL sample_env)" by code_simp
  have h6: "new_URL sample_urls (req_path sample_post) (BACKEND_URL sample_env) = Some ?t"
    by code_simp
  have h7: "new_URL sample_urls (req_url sample_post) None = Some ?u" by code_simp
  have b: "backend_request sample_post (to_string sample_urls ?tgt) (get_host sample_urls ?tgt) =
             \<lparr>rq_url = ''https://api.example.com/api/chat?x=1'', rq_method = ''POST'',
              rq_headers = [(''content-type'', ''text/plain''), (''host'', ''api.example.com'')],
              rq_body = Some (Raw ''hello'')\<rparr>"
    by code_simp
  note T = C9_any_json_is_forwarded [where net = net_verifier_disallows and env = sample_env
        and c = sample_post and U = sample_urls, OF h1 h2 h3]
  have c: "snd (api_handler sample_urls net_verifier_disallows sample_env sample_post) =
             [verifier_call sample_env sample_post,
              backend_request sample_post (to_string sample_urls ?tgt)
                (get_host sample_urls ?tgt)]"
    using T h4 h5 h6 h7 by blast
  have n2: "net_verifier_not_json (verifier_call sample_env sample_post) = Resolves ?n"
    by code_simp
  have n3: "rs_ok ?n" by code_simp
  have n4: "rs_json ?n = None" by (simp add: plain_response_def)
  have d: "api_handler sample_urls net_verifier_not_json sample_env sample_post =
       (Json_reply (JObj [(''error'', JStr ''Verification service unavailable'')]) 503,
        [verifier_call sample_env sample_post])"
    using C9_any_json_is_forwarded [where net = net_verifier_not_json and env = sample_env
        and c = sample_post and U = sample_urls, OF h1 n2 n3] n4
    by blast
  have c': "snd (api_handler sample_urls net_verifier_disallows sample_env sample_post) =
       [verifier_call sample_env sample_post,
        \<lparr>rq_url = ''https://api.example.com/api/chat?x=1'', rq_method = ''POST'',
         rq_headers = [(''content-type'', ''text/plain''), (''host'', ''api.example.com'')],
         rq_body = Some (Raw ''hello'')\<rparr>]"
    by (simp only: c b)
  show ?thesis
    by (intro conjI h1 h2 h3 h5 c' n2 n3 d)
qed

section \<open>Gateway: the forwarded request\<close>












section \<open>The VOPRF client: the blind context\<close>

lemma finalize_keeps_client: "snd (finalize l cl ev) = cl"
  by (simp add: finalize_def split: option.splits)

lemma generateBlindRequest_stores:
  assumes "generateBlindRequest l cl input = (Inr req, cl')"
  shows "\<exists>fd. lib_blind l (encode_utf8 input) = Some (fd, req) \<and> finData cl' = Some fd"
  using assms by (auto simp: generateBlindRequest_def split: option.splits)

lemma finalize_Inr:
  assumes "finalize l cl ev = (Inr (Some t), cl')"
  shows "\<exists>evalObj rest. lib_deserialize l ev = Some evalObj \<and>
           lib_finalize l (finData cl) evalObj = Some (t # rest) \<and> cl' = cl"
  using assms by (auto simp: finalize_def split: option.splits list.splits)

section \<open>The widget: minting and caching the token\<close>

lemma getItem_setItem: "getItem (setItem ls k v) k = Some v"
  by (simp add: getItem_def setItem_def update_conv')

lemma mint_failure:
  assumes "mint w s = (Inl e, s', calls)"
  shows "localStorage s' = localStorage s \<and> length calls \<le> 1 \<and>
         (token s' = token s \<or> token s' = None \<or> e = StorageError \<and> \<not> storage_set_ok w)"
  using assms
  by (auto simp: mint_def Let_def
      split: prod.splits sum.splits option.splits fetch_result.splits if_splits)

lemma mint_success:
  assumes "mint w s = (Inr t, s', calls)"
  shows "\<exists>fd req r j e ev.
           lib_blind (w_lib w) (encode_utf8 (randomUUID w)) = Some (fd, req)
         \<and> calls = [issue_request (s\<lparr>voprfClient := (voprfClient s)\<lparr>finData := Some fd\<rparr>\<rparr>) req]
         \<and> w_net w (issue_request (s\<lparr>voprfClient := (voprfClient s)\<lparr>finData := Some fd\<rparr>\<rparr>) req)
             = Resolves r
         \<and> rs_ok r \<and> rs_json r = Some j \<and> evalB64_of j = Some e
         \<and> atob_bytes (from_base64url e) = Some ev
         \<and> fst (finalize (w_lib w) ((voprfClient s)\<lparr>finData := Some fd\<rparr>) ev) = Inr (Some t)
         \<and> finData (voprfClient s') = Some fd
         \<and> token s' = Some t
         \<and> localStorage s' = setItem (localStorage s) (token_key s) (json_of_bytes w t)"
  using assms
  apply (simp add: mint_def Let_def generateBlindRequest_def
      split: prod.splits sum.splits option.splits fetch_result.splits if_splits)
  apply (auto simp: token_key_def finalize_def split: option.splits list.splits)
  done

lemma ensureToken_cached:
  "token s = Some t \<Longrightarrow> ensureToken w s = (Inr t, s, [])"
  by (simp add: ensureToken_def)

lemma ensureToken_stored:
  assumes "token s = None" and "storage_get_ok w"
    and "getItem (localStorage s) (token_key s) = Some v" and "v \<noteq> []"
    and "bytes_of_json w v = Some t"
  shows "ensureToken w s = (Inr t, s\<lparr>token := Some t\<rparr>, [])"
  using assms by (simp add: ensureToken_def Let_def)

lemma ensureToken_mints:
  assumes "token s = None" and "storage_get_ok w"
    and "\<not> truthy (getItem (localStorage s) (token_key s))"
  shows "ensureToken w s = mint w s"
  using assms by (simp add: ensureToken_def Let_def)

lemma ensureToken_cases:
  "(\<exists>t. token s = Some t \<and> ensureToken w s = (Inr t, s, []))
   \<or> (token s = None \<and> \<not> storage_get_ok w \<and> ensureToken w s = (Inl StorageError, s, []))
   \<or> (token s = None \<and> storage_get_ok w \<and>
       (\<exists>v. getItem (localStorage s) (token_key s) = Some v \<and> v \<noteq> [] \<and>
            (case bytes_of_json w v of
               None \<Rightarrow> ensureToken w s = (Inl SyntaxError, s, [])
             | Some t \<Rightarrow> ensureToken w s = (Inr t, s\<lparr>token := Some t\<rparr>, []))))
   \<or> (token s = None \<and> storage_get_ok w \<and>
       \<not> truthy (getItem (localStorage s) (token_key s)) \<and> ensureToken w s = mint w s)"
proof (cases "token s")
  case (Some t)
  then show ?thesis by (simp add: ensureToken_def)
next
  case None
  show ?thesis
  proof (cases "storage_get_ok w")
    case False
    with None show ?thesis by (simp add: ensureToken_def)
  next
    case True
    show ?thesis
    proof (cases "getItem (localStorage s) (token_key s)")
      case n: None
      with None True show ?thesis by (simp add: ensureToken_def Let_def)
    next
      case (Some v)
      with None True show ?thesis
        by (cases "bytes_of_json w v") (auto simp: ensureToken_def Let_def)
    qed
  qed
qed

lemma ensureToken_success_token:
  assumes "ensureToken w s = (Inr t, s', calls)"
  shows "token s' = Some t"
  using ensureToken_cases [of s w] assms mint_success [of w s t s' calls]
  by (auto split: option.splits)

lemma ensureToken_calls:
  assumes "snd (snd (ensureToken w s)) \<noteq> []"
  shows "token s = None \<and> \<not> truthy (getItem (localStorage s) (token_key s))"
  using ensureToken_cases [of s w] assms
  by (auto split: option.splits)

lemma ensureToken_failure:
  assumes "token s = None" and "ensureToken w s = (Inl e, s', calls)"
  shows "localStorage s' = localStorage s \<and> length calls \<le> 1 \<and>
         (token s' = None \<or> e = StorageError \<and> \<not> storage_set_ok w)"
  using ensureToken_cases [of s w] assms mint_failure [of w s e s' calls]
  by (auto split: option.splits)

lemma ensureToken_persisted:
  assumes "token s = None" and "ensureToken w s = (Inr t, s', calls)"
  shows "\<exists>v. getItem (localStorage s') (token_key s) = Some v \<and> v \<noteq> [] \<and>
             (bytes_of_json w v = Some t \<or> v = json_of_bytes w t)
       \<or> json_of_bytes w t = [] \<and>
         localStorage s' = setItem (localStorage s) (token_key s) (json_of_bytes w t)"
proof -
  consider
    (stored) v where "getItem (localStorage s) (token_key s) = Some v" "v \<noteq> []"
      "bytes_of_json w v = Some t" "s' = s\<lparr>token := Some t\<rparr>"
  | (minted) "mint w s = (Inr t, s', calls)"
    using ensureToken_cases [of s w] assms by (auto split: option.splits)
  then show ?thesis
  proof cases
    case stored
    then show ?thesis by auto
  next
    case minted
    from mint_success [OF minted]
    have ls: "localStorage s' = setItem (localStorage s) (token_key s) (json_of_bytes w t)"
      by blast
    show ?thesis
    proof (cases "json_of_bytes w t = []")
      case True
      with ls show ?thesis by simp
    next
      case False
      with ls show ?thesis by (simp add: getItem_setItem)
    qed
  qed
qed

lemma state_voprfClient_token:
  "token s = None \<Longrightarrow> s\<lparr>voprfClient := cl, token := None\<rparr> = s\<lparr>voprfClient := cl\<rparr>"
  by (cases s) simp

lemma mint_network_failure:
  assumes "randomUUID_ok w"
    and "generateBlindRequest (w_lib w) (voprfClient s) (randomUUID w) = (Inr req, cl)"
    and "w_net w (issue_request (s\<lparr>voprfClient := cl\<rparr>) req) = Rejects msg"
  shows "mint w s = (Inl (NetworkError msg), s\<lparr>voprfClient := cl\<rparr>,
                     [issue_request (s\<lparr>voprfClient := cl\<rparr>) req])"
  using assms by (simp add: mint_def Let_def)

lemma mint_issuer_refuses:
  assumes "randomUUID_ok w"
    and "generateBlindRequest (w_lib w) (voprfClient s) (randomUUID w) = (Inr req, cl)"
    and "w_net w (issue_request (s\<lparr>voprfClient := cl\<rparr>) req) = Resolves r"
    and "\<not> rs_ok r"
  shows "mint w s = (Inl (IssueFailed (rs_status r) (rs_text r)), s\<lparr>voprfClient := cl\<rparr>,
                     [issue_request (s\<lparr>voprfClient := cl\<rparr>) req])"
  using assms by (simp add: mint_def Let_def)

lemma mint_finalize_fails:
  assumes "randomUUID_ok w"
    and "generateBlindRequest (w_lib w) (voprfClient s) (randomUUID w) = (Inr req, cl)"
    and "w_net w (issue_request (s\<lparr>voprfClient := cl\<rparr>) req) = Resolves r"
    and "rs_ok r" and "rs_json r = Some j" and "evalB64_of j = Some e"
    and "atob_bytes (from_base64url e) = Some ev"
    and "fst (finalize (w_lib w) cl ev) = Inl err"
  shows "mint w s = (Inl err, s\<lparr>voprfClient := cl\<rparr>,
                     [issue_request (s\<lparr>voprfClient := cl\<rparr>) req])"
proof -
  have "finalize (w_lib w) cl ev = (Inl err, cl)"
    using assms(8) finalize_keeps_client [of "w_lib w" cl ev] by (metis prod.collapse)
  with assms(1-7) show ?thesis by (simp add: mint_def Let_def)
qed

lemma mint_finalize_no_token:
  assumes "randomUUID_ok w" and "token s = None"
    and "generateBlindRequest (w_lib w) (voprfClient s) (randomUUID w) = (Inr req, cl)"
    and "w_net w (issue_request (s\<lparr>voprfClient := cl\<rparr>) req) = Resolves r"
    and "rs_ok r" and "rs_json r = Some j" and "evalB64_of j = Some e"
    and "atob_bytes (from_base64url e) = Some ev"
    and "fst (finalize (w_lib w) cl ev) = Inr None"
  shows "mint w s = (Inl TypeError, s\<lparr>voprfClient := cl\<rparr>,
                     [issue_request (s\<lparr>voprfClient := cl\<rparr>) req])"
proof -
  have "finalize (w_lib w) cl ev = (Inr None, cl)"
    using assms(9) finalize_keeps_client [of "w_lib w" cl ev] by (metis prod.collapse)
  with assms(1,3-8) show ?thesis
    by (simp add: mint_def Let_def state_voprfClient_token [OF assms(2)])
qed

text \<open>
  Claim C8, as stated, fails: \<open>finalize\<close> reads the field \<open>finData\<close> and leaves it in
  place, after a success and after a failure, so the client still holds the context and
  hands the same context to the library on a second \<open>finalize\<close>.
\<close>

theorem C8_counterexample:
  "generateBlindRequest sample_lib new_voprf_client ''u1'' =
     (Inr [118, 50], \<lparr>finData = Some [49, 117]\<rparr>)
   \<and> finalize sample_lib \<lparr>finData = Some [49, 117]\<rparr> [1, 2, 3] =
       (Inr (Some [49, 117, 1, 2, 3]), \<lparr>finData = Some [49, 117]\<rparr>)
   \<and> finalize sample_lib (snd (finalize sample_lib \<lparr>finData = Some [49, 117]\<rparr> [1, 2, 3])) [4, 5] =
       (Inr (Some [49, 117, 4, 5]), \<lparr>finData = Some [49, 117]\<rparr>)
   \<and> finalize sample_lib \<lparr>finData = Some [49, 117]\<rparr> [] =
       (Inl LibraryError, \<lparr>finData = Some [49, 117]\<rparr>)"
  by code_simp

text \<open>
  Claim C8, amended. The blind step stores its context in the client's field \<open>finData\<close>;
  \<open>finalize\<close> never changes the client, so the context stays until the next blind step
  overwrites it. In a mint that succeeds, the token is the result of \<open>finalize\<close> on the
  context of that mint's blind step, the client still holds that context afterwards, and
  the only entry written to \<open>localStorage\<close> is the token under the site's key; a mint that
  fails writes nothing to \<open>localStorage\<close>.
\<close>

theorem C8_context_retained:
  "snd (finalize l cl ev) = cl
   \<and> (\<forall>req cl'. generateBlindRequest l cl input = (Inr req, cl') \<longrightarrow>
         (\<exists>fd. lib_blind l (encode_utf8 input) = Some (fd, req) \<and> finData cl' = Some fd))
   \<and> (\<forall>t s' calls. mint w s = (Inr t, s', calls) \<longrightarrow>
         (\<exists>fd req ev.
            lib_blind (w_lib w) (encode_utf8 (randomUUID w)) = Some (fd, req)
          \<and> fst (finalize (w_lib w) ((voprfClient s)\<lparr>finData := Some fd\<rparr>) ev) = Inr (Some t)
          \<and> finData (voprfClient s') = Some fd
          \<and> localStorage s' = setItem (localStorage s) (token_key s) (json_of_bytes w t)))
   \<and> (\<forall>e s' calls. mint w s = (Inl e, s', calls) \<longrightarrow> localStorage s' = localStorage s)"
proof (intro conjI allI impI)
  show "snd (finalize l cl ev) = cl" by (rule finalize_keeps_client)
next
  fix req cl'
  assume "generateBlindRequest l cl input = (Inr req, cl')"
  then show "\<exists>fd. lib_blind l (encode_utf8 input) = Some (fd, req) \<and> finData cl' = Some fd"
    by (rule generateBlindRequest_stores)
next
  fix t s' calls
  assume "mint w s = (Inr t, s', calls)"
  from mint_success [OF this]
  show "\<exists>fd req ev.
            lib_blind (w_lib w) (encode_utf8 (randomUUID w)) = Some (fd, req)
          \<and> fst (finalize (w_lib w) ((voprfClient s)\<lparr>finData := Some fd\<rparr>) ev) = Inr (Some t)
          \<and> finData (voprfClient s') = Some fd
          \<and> localStorage s' = setItem (localStorage s) (token_key s) (json_of_bytes w t)"
    by blast
next
  fix e s' calls
  assume "mint w s = (Inl e, s', calls)"
  from mint_failure [OF this] show "localStorage s' = localStorage s" by blast
qed

theorem C8_witness:
  "generateBlindRequest sample_lib new_voprf_client ''u1'' =
     (Inr [118, 50], \<lparr>finData = Some [49, 117]\<rparr>)
   \<and> lib_blind sample_lib (encode_utf8 ''u1'') = Some ([49, 117], [118, 50])
   \<and> snd (finalize sample_lib \<lparr>finData = Some [49, 117]\<rparr> [1, 2, 3]) = \<lparr>finData = Some [49, 117]\<rparr>
   \<and> fst (mint world_epoch0 fresh_widget) = Inr [49, 117, 1, 2, 3]
   \<and> finData (voprfClient (fst (snd (mint world_epoch0 fresh_widget)))) = Some [49, 117]
   \<and> localStorage (fst (snd (mint world_epoch0 fresh_widget))) =
       [(''sb_token_site_42'', ''[49,117,1,2,3]'')]
   \<and> fst (mint (sample_world net_issuer_down) fresh_widget) = Inl (NetworkError ''offline'')
   \<and> localStorage (fst (snd (mint (sample_world net_issuer_down) fresh_widget))) = []"
proof -
  have g: "generateBlindRequest sample_lib new_voprf_client ''u1'' =
             (Inr [118, 50], \<lparr>finData = Some [49, 117]\<rparr>)"
    by code_simp
  have b: "lib_blind sample_lib (encode_utf8 ''u1'') = Some ([49, 117], [118, 50])"
    by code_simp
  have f: "snd (finalize sample_lib \<lparr>finData = Some [49, 117]\<rparr> [1, 2, 3]) =
             \<lparr>finData = Some [49, 117]\<rparr>"
    using C8_context_retained [of sample_lib "\<lparr>finData = Some [49, 117]\<rparr>" "[1, 2, 3]"]
    by blast
  have m1: "fst (mint world_epoch0 fresh_widget) = Inr [49, 117, 1, 2, 3]" by code_simp
  have m2: "finData (voprfClient (fst (snd (mint world_epoch0 fresh_widget)))) = Some [49, 117]"
    by code_simp
  have m3: "localStorage (fst (snd (mint world_epoch0 fresh_widget))) =
              [(''sb_token_site_42'', ''[49,117,1,2,3]'')]"
    by code_simp
  have d1: "fst (mint (sample_world net_issuer_down) fresh_widget) = Inl (NetworkError ''offline'')"
    by code_simp
  have d2: "localStorage fresh_widget = []" by code_simp
  obtain s' calls where d: "mint (sample_world net_issuer_down) fresh_widget =
      (Inl (NetworkError ''offline''), s', calls)"
    using d1 by (metis fst_conv prod.exhaust_sel)
  have d3: "localStorage (fst (snd (mint (sample_world net_issuer_down) fresh_widget))) = []"
    using C8_context_retained [of _ _ _ _ "sample_world net_issuer_down" fresh_widget] d d2
    by simp
  show ?thesis
    by (intro conjI g b f m1 m2 m3 d1 d3)
qed

text \<open>
  Claim C6. Take a state with no token in memory and no entry for the site in
  \<open>localStorage\<close>, so that \<open>ensureToken\<close> goes on to mint. Every failure is returned to the
  caller as the error, with \<open>localStorage\<close> as it was and at most one request made (no
  retry), and no token in memory, save for the one failure the claim does not list, a
  \<open>setItem\<close> that throws once the token is assigned. For a mint whose blind step gave the
  request \<open>req\<close> and the client \<open>cl\<close>, the outcome of each listed failure is given in full:
  an unreachable issuer, an answer outside 200..299, and a failure of the \<open>finalize\<close> of
  this very mint (a throw of the library, or no token in its result) each end with that
  error, one request to the issuer, and the state of before but for the client's blind
  context; and whenever a token is returned it is the one this \<open>finalize\<close> produced.
\<close>

theorem C6_failed_mint_caches_nothing:
  assumes "token s = None"
    and "\<not> truthy (getItem (localStorage s) (token_key s))"
  shows "(\<forall>e s' calls. ensureToken w s = (Inl e, s', calls) \<longrightarrow>
            localStorage s' = localStorage s \<and> length calls \<le> 1 \<and>
            (token s' = None \<or> e = StorageError \<and> \<not> storage_set_ok w))
       \<and> (\<forall>req cl.
            storage_get_ok w \<and> randomUUID_ok w \<and>
            generateBlindRequest (w_lib w) (voprfClient s) (randomUUID w) = (Inr req, cl) \<longrightarrow>
            token (s\<lparr>voprfClient := cl\<rparr>) = None
          \<and> localStorage (s\<lparr>voprfClient := cl\<rparr>) = localStorage s
          \<and> (\<forall>msg. w_net w (issue_request (s\<lparr>voprfClient := cl\<rparr>) req) = Rejects msg \<longrightarrow>
                ensureToken w s =
                  (Inl (NetworkError msg), s\<lparr>voprfClient := cl\<rparr>,
                   [issue_request (s\<lparr>voprfClient := cl\<rparr>) req]))
          \<and> (\<forall>r. w_net w (issue_request (s\<lparr>voprfClient := cl\<rparr>) req) = Resolves r \<and> \<not> rs_ok r \<longrightarrow>
                ensureToken w s =
                  (Inl (IssueFailed (rs_status r) (rs_text r)), s\<lparr>voprfClient := cl\<rparr>,
                   [issue_request (s\<lparr>voprfClient := cl\<rparr>) req]))
          \<and> (\<forall>r j e ev.
                w_net w (issue_request (s\<lparr>voprfClient := cl\<rparr>) req) = Resolves r \<and> rs_ok r \<and>
                rs_json r = Some j \<and> evalB64_of j = Some e \<and>
                atob_bytes (from_base64url e) = Some ev \<longrightarrow>
                (\<forall>err. fst (finalize (w_lib w) cl ev) = Inl err \<longrightarrow>
                   ensureToken w s =
                     (Inl err, s\<lparr>voprfClient := cl\<rparr>,
                      [issue_request (s\<lparr>voprfClient := cl\<rparr>) req]))
              \<and> (fst (finalize (w_lib w) cl ev) = Inr None \<longrightarrow>
                   ensureToken w s =
                     (Inl TypeError, s\<lparr>voprfClient := cl\<rparr>,
                      [issue_request (s\<lparr>voprfClient := cl\<rparr>) req]))
              \<and> (\<forall>t. fst (ensureToken w s) = Inr t \<longrightarrow>
                   fst (finalize (w_lib w) cl ev) = Inr (Some t))))"
proof -
  have p1: "\<forall>e s' calls. ensureToken w s = (Inl e, s', calls) \<longrightarrow>
            localStorage s' = localStorage s \<and> length calls \<le> 1 \<and>
            (token s' = None \<or> e = StorageError \<and> \<not> storage_set_ok w)"
    using ensureToken_failure [OF assms(1)] by blast
  have p2: "\<forall>req cl.
            storage_get_ok w \<and> randomUUID_ok w \<and>
            generateBlindRequest (w_lib w) (voprfClient s) (randomUUID w) = (Inr req, cl) \<longrightarrow>
            token (s\<lparr>voprfClient := cl\<rparr>) = None
          \<and> localStorage (s\<lparr>voprfClient := cl\<rparr>) = localStorage s
          \<and> (\<forall>msg. w_net w (issue_request (s\<lparr>voprfClient := cl\<rparr>) req) = Rejects msg \<longrightarrow>
                ensureToken w s =
                  (Inl (NetworkError msg), s\<lparr>voprfClient := cl\<rparr>,
                   [issue_request (s\<lparr>voprfClient := cl\<rparr>) req]))
          \<and> (\<forall>r. w_net w (issue_request (s\<lparr>voprfClient := cl\<rparr>) req) = Resolves r \<and> \<not> rs_ok r \<longrightarrow>
                ensureToken w s =
                  (Inl (IssueFailed (rs_status r) (rs_text r)), s\<lparr>voprfClient := cl\<rparr>,
                   [issue_request (s\<lparr>voprfClient := cl\<rparr>) req]))
          \<and> (\<forall>r j e ev.
                w_net w (issue_request (s\<lparr>voprfClient := cl\<rparr>) req) = Resolves r \<and> rs_ok r \<and>
                rs_json r = Some j \<and> evalB64_of j = Some e \<and>
                atob_bytes (from_base64url e) = Some ev \<longrightarrow>
                (\<forall>err. fst (finalize (w_lib w) cl ev) = Inl err \<longrightarrow>
                   ensureToken w s =
                     (Inl err, s\<lparr>voprfClient := cl\<rparr>,
                      [issue_request (s\<lparr>voprfClient := cl\<rparr>) req]))
              \<and> (fst (finalize (w_lib w) cl ev) = Inr None \<longrightarrow>
                   ensureToken w s =
                     (Inl TypeError, s\<lparr>voprfClient := cl\<rparr>,
                      [issue_request (s\<lparr>voprfClient := cl\<rparr>) req]))
              \<and> (\<forall>t. fst (ensureToken w s) = Inr t \<longrightarrow>
                   fst (finalize (w_lib w) cl ev) = Inr (Some t)))"
  proof (intro allI impI)
    fix req cl
    assume h: "storage_get_ok w \<and> randomUUID_ok w \<and>
            generateBlindRequest (w_lib w) (voprfClient s) (randomUUID w) = (Inr req, cl)"
    then have ok: "randomUUID_ok w"
      and g: "generateBlindRequest (w_lib w) (voprfClient s) (randomUUID w) = (Inr req, cl)"
      by simp_all
    have m: "ensureToken w s = mint w s"
      using ensureToken_mints [OF assms(1) _ assms(2)] h by simp
    let ?s1 = "s\<lparr>voprfClient := cl\<rparr>"
    let ?ireq = "issue_request ?s1 req"
    have q0: "token ?s1 = None \<and> localStorage ?s1 = localStorage s"
      using assms(1) by simp
    have q1: "\<forall>msg. w_net w ?ireq = Rejects msg \<longrightarrow>
                ensureToken w s = (Inl (NetworkError msg), ?s1, [?ireq])"
      using mint_network_failure [OF ok g] by (simp add: m)
    have q2: "\<forall>r. w_net w ?ireq = Resolves r \<and> \<not> rs_ok r \<longrightarrow>
                ensureToken w s = (Inl (IssueFailed (rs_status r) (rs_text r)), ?s1, [?ireq])"
      using mint_issuer_refuses [OF ok g] by (simp add: m)
    have q3: "\<forall>r j e ev.
                w_net w ?ireq = Resolves r \<and> rs_ok r \<and>
                rs_json r = Some j \<and> evalB64_of j = Some e \<and>
                atob_bytes (from_base64url e) = Some ev \<longrightarrow>
                (\<forall>err. fst (finalize (w_lib w) cl ev) = Inl err \<longrightarrow>
                   ensureToken w s = (Inl err, ?s1, [?ireq]))
              \<and> (fst (finalize (w_lib w) cl ev) = Inr None \<longrightarrow>
                   ensureToken w s = (Inl TypeError, ?s1, [?ireq]))
              \<and> (\<forall>t. fst (ensureToken w s) = Inr t \<longrightarrow>
                   fst (finalize (w_lib w) cl ev) = Inr (Some t))"
    proof (intro allI impI)
      fix r j e ev
      assume a: "w_net w ?ireq = Resolves r \<and> rs_ok r \<and>
                rs_json r = Some j \<and> evalB64_of j = Some e \<and>
                atob_bytes (from_base64url e) = Some ev"
      then have a1: "w_net w ?ireq = Resolves r" and a2: "rs_ok r"
        and a3: "rs_json r = Some j" and a4: "evalB64_of j = Some e"
        and a5: "atob_bytes (from_base64url e) = Some ev"
        by simp_all
      have f1: "\<forall>err. fst (finalize (w_lib w) cl ev) = Inl err \<longrightarrow>
                   ensureToken w s = (Inl err, ?s1, [?ireq])"
        using mint_finalize_fails [OF ok g a1 a2 a3 a4 a5] by (simp add: m)
      have f2: "fst (finalize (w_lib w) cl ev) = Inr None \<longrightarrow>
                   ensureToken w s = (Inl TypeError, ?s1, [?ireq])"
        using mint_finalize_no_token [OF ok assms(1) g a1 a2 a3 a4 a5] by (simp add: m)
      have f3: "\<forall>t. fst (ensureToken w s) = Inr t \<longrightarrow>
                   fst (finalize (w_lib w) cl ev) = Inr (Some t)"
      proof (intro allI impI)
        fix t
        assume t: "fst (ensureToken w s) = Inr t"
        show "fst (finalize (w_lib w) cl ev) = Inr (Some t)"
        proof (cases "fst (finalize (w_lib w) cl ev)")
          case (Inl err)
          with f1 t show ?thesis by simp
        next
          case (Inr tok)
          show ?thesis
          proof (cases tok)
            case None
            with Inr f2 t show ?thesis by simp
          next
            case (Some t')
            have fin: "finalize (w_lib w) cl ev = (Inr (Some t'), cl)"
              using Inr Some finalize_keeps_client [of "w_lib w" cl ev]
              by (metis prod.collapse)
            have "fst (mint w s) = (if storage_set_ok w then Inr t' else Inl StorageError)"
              using ok g a1 a2 a3 a4 a5 fin by (simp add: mint_def Let_def)
            with t m have "t' = t" by (simp split: if_splits)
            with Inr Some show ?thesis by simp
          qed
        qed
      qed
      show "(\<forall>err. fst (finalize (w_lib w) cl ev) = Inl err \<longrightarrow>
                   ensureToken w s = (Inl err, ?s1, [?ireq]))
              \<and> (fst (finalize (w_lib w) cl ev) = Inr None \<longrightarrow>
                   ensureToken w s = (Inl TypeError, ?s1, [?ireq]))
              \<and> (\<forall>t. fst (ensureToken w s) = Inr t \<longrightarrow>
                   fst (finalize (w_lib w) cl ev) = Inr (Some t))"
        using f1 f2 f3 by (intro conjI)
    qed
    show "token ?s1 = None
          \<and> localStorage ?s1 = localStorage s
          \<and> (\<forall>msg. w_net w ?ireq = Rejects msg \<longrightarrow>
                ensureToken w s = (Inl (NetworkError msg), ?s1, [?ireq]))
          \<and> (\<forall>r. w_net w ?ireq = Resolves r \<and> \<not> rs_ok r \<longrightarrow>
                ensureToken w s = (Inl (IssueFailed (rs_status r) (rs_text r)), ?s1, [?ireq]))
          \<and> (\<forall>r j e ev.
                w_net w ?ireq = Resolves r \<and> rs_ok r \<and>
                rs_json r = Some j \<and> evalB64_of j = Some e \<and>
                atob_bytes (from_base64url e) = Some ev \<longrightarrow>
                (\<forall>err. fst (finalize (w_lib w) cl ev) = Inl err \<longrightarrow>
                   ensureToken w s = (Inl err, ?s1, [?ireq]))
              \<and> (fst (finalize (w_lib w) cl ev) = Inr None \<longrightarrow>
                   ensureToken w s = (Inl TypeError, ?s1, [?ireq]))
              \<and> (\<forall>t. fst (ensureToken w s) = Inr t \<longrightarrow>
                   fst (finalize (w_lib w) cl ev) = Inr (Some t)))"
      using q0 q1 q2 q3 by (intro conjI) simp_all
  qed
  show ?thesis
    using p1 p2 by (intro conjI)
qed

theorem C6_witness:
  "token fresh_widget = None
   \<and> \<not> truthy (getItem (localStorage fresh_widget) (token_key fresh_widget))
   \<and> generateBlindRequest sample_lib (voprfClient fresh_widget) ''u1'' =
       (Inr [118, 50], \<lparr>finData = Some [49, 117]\<rparr>)
   \<and> ensureToken (sample_world net_issuer_down) fresh_widget =
       (Inl (NetworkError ''offline''),
        fresh_widget\<lparr>voprfClient := \<lparr>finData = Some [49, 117]\<rparr>\<rparr>,
        [issue_request (fresh_widget\<lparr>voprfClient := \<lparr>finData = Some [49, 117]\<rparr>\<rparr>) [118, 50]])
   \<and> ensureToken (sample_world net_issuer_500) fresh_widget =
       (Inl (IssueFailed 500 ''issuer error''),
        fresh_widget\<lparr>voprfClient := \<lparr>finData = Some [49, 117]\<rparr>\<rparr>,
        [issue_request (fresh_widget\<lparr>voprfClient := \<lparr>finData = Some [49, 117]\<rparr>\<rparr>) [118, 50]])
   \<and> fst (finalize sample_lib \<lparr>finData = Some [49, 117]\<rparr> []) = Inl LibraryError
   \<and> ensureToken (sample_world (net_issuer [] 200)) fresh_widget =
       (Inl LibraryError,
        fresh_widget\<lparr>voprfClient := \<lparr>finData = Some [49, 117]\<rparr>\<rparr>,
        [issue_request (fresh_widget\<lparr>voprfClient := \<lparr>finData = Some [49, 117]\<rparr>\<rparr>) [118, 50]])
   \<and> token (fresh_widget\<lparr>voprfClient := \<lparr>finData = Some [49, 117]\<rparr>\<rparr>) = None
   \<and> localStorage (fresh_widget\<lparr>voprfClient := \<lparr>finData = Some [49, 117]\<rparr>\<rparr>) = []
   \<and> fst (ensureToken world_epoch0 fresh_widget) = Inr [49, 117, 1, 2, 3]
   \<and> fst (finalize sample_lib \<lparr>finData = Some [49, 117]\<rparr> [1, 2, 3]) = Inr (Some [49, 117, 1, 2, 3])"
proof -
  let ?down = "sample_world net_issuer_down"
  let ?bad = "sample_world net_issuer_500"
  let ?fin = "sample_world (net_issuer [] 200)"
  let ?cl = "\<lparr>finData = Some [49, 117]\<rparr>"
  let ?s1 = "fresh_widget\<lparr>voprfClient := ?cl\<rparr>"
  let ?ireq = "issue_request ?s1 [118, 50]"
  have h1: "token fresh_widget = None" by code_simp
  have h2: "\<not> truthy (getItem (localStorage fresh_widget) (token_key fresh_widget))"
    by code_simp
  have g0: "generateBlindRequest sample_lib (voprfClient fresh_widget) ''u1'' = (Inr [118, 50], ?cl)"
    by code_simp
  have wl: "w_lib (sample_world n) = sample_lib" "randomUUID (sample_world n) = ''u1''"
    "storage_get_ok (sample_world n)" "randomUUID_ok (sample_world n)"
    "w_net (sample_world n) = n" for n
    by (simp_all add: sample_world_def)
  have n1: "net_issuer_down ?ireq = Rejects ''offline''" by (simp add: net_issuer_down_def)
  have n2: "net_issuer_500 ?ireq = Resolves (plain_response 500 ''issuer error'' None)"
    by (simp add: net_issuer_500_def)
  have n2': "\<not> rs_ok (plain_response 500 ''issuer error'' None)"
    "rs_status (plain_response 500 ''issuer error'' None) = 500"
    "rs_text (plain_response 500 ''issuer error'' None) = ''issuer error''"
    by code_simp+
  have n3: "net_issuer [] 200 ?ireq = Resolves (evaluation_response [])" by code_simp
  have n3': "rs_ok (evaluation_response [])"
    "rs_json (evaluation_response []) = Some (JObj [(''evalB64'', JStr [])])"
    "evalB64_of (JObj [(''evalB64'', JStr [])]) = Some []"
    "atob_bytes (from_base64url []) = Some []"
    by code_simp+
  have f0: "fst (finalize sample_lib ?cl []) = Inl LibraryError" by code_simp
  have r1: "ensureToken ?down fresh_widget = (Inl (NetworkError ''offline''), ?s1, [?ireq])"
    using C6_failed_mint_caches_nothing [OF h1 h2, of ?down] g0 n1 by (simp add: wl)
  have r2: "ensureToken ?bad fresh_widget = (Inl (IssueFailed 500 ''issuer error''), ?s1, [?ireq])"
    using C6_failed_mint_caches_nothing [OF h1 h2, of ?bad] g0 n2 n2' by (simp add: wl)
  have r3: "ensureToken ?fin fresh_widget = (Inl LibraryError, ?s1, [?ireq])"
    using C6_failed_mint_caches_nothing [OF h1 h2, of ?fin] g0 n3 n3' f0 by (simp add: wl)
  have r4: "token ?s1 = None" using h1 by simp
  have r5: "localStorage ?s1 = []" by code_simp
  have r6: "fst (ensureToken world_epoch0 fresh_widget) = Inr [49, 117, 1, 2, 3]"
    by code_simp
  have r7: "fst (finalize sample_lib ?cl [1, 2, 3]) = Inr (Some [49, 117, 1, 2, 3])"
    by code_simp
  show ?thesis
    by (intro conjI h1 h2 g0 r1 r2 r3 f0 r4 r5 r6 r7)
qed

text \<open>
  Claim C2, as stated, fails on its second half: the client has no notion of an epoch. A
  call made in the next epoch returns the token of the first call without any request to
  the issuer, and so does a new page that finds the token in \<open>localStorage\<close>, although a
  mint in that epoch would give another token.
\<close>

theorem C2_counterexample:
  "epoch world_epoch0 = 0 \<and> epoch world_epoch1 = 1
   \<and> fst (ensureToken world_epoch0 fresh_widget) = Inr [49, 117, 1, 2, 3]
   \<and> fst (ensureToken world_epoch1 (fst (snd (ensureToken world_epoch0 fresh_widget)))) =
       Inr [49, 117, 1, 2, 3]
   \<and> snd (snd (ensureToken world_epoch1 (fst (snd (ensureToken world_epoch0 fresh_widget))))) = []
   \<and> fst (ensureToken world_epoch1
            (fresh_widget\<lparr>localStorage :=
               localStorage (fst (snd (ensureToken world_epoch0 fresh_widget)))\<rparr>)) =
       Inr [49, 117, 1, 2, 3]
   \<and> fst (ensureToken world_epoch1 fresh_widget) = Inr [50, 117, 4, 5, 6]"
  by code_simp

text \<open>
  Claim C2, amended. In whatever world (and epoch) the calls run:
  when a call of \<open>ensureToken\<close> returns a token, the next call on the resulting state returns
  the same token, leaves the state as it is and makes no request;
  with no token in memory and an entry for the site in \<open>localStorage\<close>, the call makes no
  request and returns the bytes that entry parses to, keeping them in memory;
  a call makes a request only when there is neither a token in memory nor an entry in
  \<open>localStorage\<close>, and in that case (\<open>localStorage\<close> readable) it is the mint;
  and after a call that started without a token in memory and returned one, a new page
  (no token in memory, the same \<open>localStorage\<close> and site) returns that very token without a
  request, given that \<open>JSON.parse\<close> reads back what \<open>JSON.stringify\<close> wrote.
\<close>

theorem C2_token_reused:
  "(\<forall>t s' calls. ensureToken w s = (Inr t, s', calls) \<longrightarrow>
       ensureToken w' s' = (Inr t, s', []))
   \<and> (\<forall>v. token s = None \<and> storage_get_ok w \<and>
          getItem (localStorage s) (token_key s) = Some v \<and> v \<noteq> [] \<longrightarrow>
          snd (snd (ensureToken w s)) = []
        \<and> (\<forall>t. bytes_of_json w v = Some t \<longrightarrow>
              ensureToken w s = (Inr t, s\<lparr>token := Some t\<rparr>, [])))
   \<and> (snd (snd (ensureToken w s)) \<noteq> [] \<longrightarrow>
         token s = None \<and> \<not> truthy (getItem (localStorage s) (token_key s)))
   \<and> (token s = None \<and> storage_get_ok w \<and>
       \<not> truthy (getItem (localStorage s) (token_key s)) \<longrightarrow>
         ensureToken w s = mint w s)
   \<and> (\<forall>t s' calls s2.
         token s = None \<and> ensureToken w s = (Inr t, s', calls) \<and>
         token s2 = None \<and> localStorage s2 = localStorage s' \<and> token_key s2 = token_key s \<and>
         storage_get_ok w' \<and> bytes_of_json w' = bytes_of_json w \<and>
         bytes_of_json w (json_of_bytes w t) = Some t \<and> json_of_bytes w t \<noteq> [] \<longrightarrow>
         ensureToken w' s2 = (Inr t, s2\<lparr>token := Some t\<rparr>, []))"
proof -
  have p1: "\<forall>t s' calls. ensureToken w s = (Inr t, s', calls) \<longrightarrow>
       ensureToken w' s' = (Inr t, s', [])"
    using ensureToken_cached ensureToken_success_token by blast
  have p2: "\<forall>v. token s = None \<and> storage_get_ok w \<and>
          getItem (localStorage s) (token_key s) = Some v \<and> v \<noteq> [] \<longrightarrow>
          snd (snd (ensureToken w s)) = []
        \<and> (\<forall>t. bytes_of_json w v = Some t \<longrightarrow>
              ensureToken w s = (Inr t, s\<lparr>token := Some t\<rparr>, []))"
    by (auto simp: ensureToken_def Let_def split: option.splits)
  have p3: "snd (snd (ensureToken w s)) \<noteq> [] \<longrightarrow>
         token s = None \<and> \<not> truthy (getItem (localStorage s) (token_key s))"
    using ensureToken_calls [of w s] by blast
  have p4: "token s = None \<and> storage_get_ok w \<and>
       \<not> truthy (getItem (localStorage s) (token_key s)) \<longrightarrow>
         ensureToken w s = mint w s"
    using ensureToken_mints [of s w] by blast
  have p5: "\<forall>t s' calls s2.
         token s = None \<and> ensureToken w s = (Inr t, s', calls) \<and>
         token s2 = None \<and> localStorage s2 = localStorage s' \<and> token_key s2 = token_key s \<and>
         storage_get_ok w' \<and> bytes_of_json w' = bytes_of_json w \<and>
         bytes_of_json w (json_of_bytes w t) = Some t \<and> json_of_bytes w t \<noteq> [] \<longrightarrow>
         ensureToken w' s2 = (Inr t, s2\<lparr>token := Some t\<rparr>, [])"
  proof (intro allI impI)
    fix t s' calls s2
    assume a: "token s = None \<and> ensureToken w s = (Inr t, s', calls) \<and>
         token s2 = None \<and> localStorage s2 = localStorage s' \<and> token_key s2 = token_key s \<and>
         storage_get_ok w' \<and> bytes_of_json w' = bytes_of_json w \<and>
         bytes_of_json w (json_of_bytes w t) = Some t \<and> json_of_bytes w t \<noteq> []"
    then have a1: "token s = None" and a2: "ensureToken w s = (Inr t, s', calls)"
      and a3: "token s2 = None" and a4: "localStorage s2 = localStorage s'"
      and a5: "token_key s2 = token_key s" and a6: "storage_get_ok w'"
      and a7: "bytes_of_json w' = bytes_of_json w"
      and a8: "bytes_of_json w (json_of_bytes w t) = Some t"
      and a9: "json_of_bytes w t \<noteq> []"
      by simp_all
    from ensureToken_persisted [OF a1 a2] a8 a9
    obtain v where v: "getItem (localStorage s') (token_key s) = Some v" "v \<noteq> []"
      "bytes_of_json w v = Some t"
      by auto
    show "ensureToken w' s2 = (Inr t, s2\<lparr>token := Some t\<rparr>, [])"
      using ensureToken_stored [OF a3 a6, of v t] v by (simp add: a4 a5 a7)
  qed
  show ?thesis
    using p1 p2 p3 p4 p5 by (intro conjI)
qed

theorem C2_witness:
  "ensureToken world_epoch0 fresh_widget = mint world_epoch0 fresh_widget
   \<and> fst (ensureToken world_epoch0 fresh_widget) = Inr [49, 117, 1, 2, 3]
   \<and> length (snd (snd (ensureToken world_epoch0 fresh_widget))) = 1
   \<and> localStorage (fst (snd (ensureToken world_epoch0 fresh_widget))) =
       [(''sb_token_site_42'', ''[49,117,1,2,3]'')]
   \<and> ensureToken world_epoch1 (fst (snd (ensureToken world_epoch0 fresh_widget))) =
       (Inr [49, 117, 1, 2, 3], fst (snd (ensureToken world_epoch0 fresh_widget)), [])
   \<and> ensureToken world_epoch1
       (fresh_widget\<lparr>localStorage := [(''sb_token_site_42'', ''[49,117,1,2,3]'')]\<rparr>) =
       (Inr [49, 117, 1, 2, 3],
        fresh_widget\<lparr>localStorage := [(''sb_token_site_42'', ''[49,117,1,2,3]'')],
                      token := Some [49, 117, 1, 2, 3]\<rparr>, [])"
proof -
  let ?t = "[49, 117, 1, 2, 3] :: bytes"
  let ?ls = "[(''sb_token_site_42'', ''[49,117,1,2,3]'')]"
  let ?s2 = "fresh_widget\<lparr>localStorage := ?ls\<rparr>"
  note T = C2_token_reused [of world_epoch0 fresh_widget world_epoch1]
  have h1: "token fresh_widget = None" by code_simp
  have h2: "\<not> truthy (getItem (localStorage fresh_widget) (token_key fresh_widget))"
    by code_simp
  have h3: "storage_get_ok world_epoch0" "storage_get_ok world_epoch1" by code_simp+
  have a: "fst (ensureToken world_epoch0 fresh_widget) = Inr ?t"
    by code_simp
  have n: "length (snd (snd (ensureToken world_epoch0 fresh_widget))) = 1" by code_simp
  have l: "localStorage (fst (snd (ensureToken world_epoch0 fresh_widget))) = ?ls"
    by code_simp
  obtain s' calls where e: "ensureToken world_epoch0 fresh_widget = (Inr ?t, s', calls)"
    using a by (metis fst_conv prod.exhaust_sel)
  have r0: "ensureToken world_epoch0 fresh_widget = mint world_epoch0 fresh_widget"
    using T h1 h2 h3 by blast
  have "ensureToken world_epoch1 s' = (Inr ?t, s', [])"
    using T e by blast
  then have r1: "ensureToken world_epoch1 (fst (snd (ensureToken world_epoch0 fresh_widget))) =
       (Inr ?t, fst (snd (ensureToken world_epoch0 fresh_widget)), [])"
    by (simp add: e)
  have l': "localStorage ?s2 = localStorage s'" using l by (simp add: e)
  have k: "token ?s2 = None" "token_key ?s2 = token_key fresh_widget"
    using h1 by (simp_all add: token_key_def)
  have j: "bytes_of_json world_epoch1 = bytes_of_json world_epoch0"
    by (simp add: world_epoch0_def world_epoch1_def sample_world_def)
  have j2: "bytes_of_json world_epoch0 (json_of_bytes world_epoch0 ?t) = Some ?t"
    "json_of_bytes world_epoch0 ?t \<noteq> []"
    by code_simp+
  have r2: "ensureToken world_epoch1 ?s2 = (Inr ?t, ?s2\<lparr>token := Some ?t\<rparr>, [])"
    using T h1 e k l' h3 j j2 by blast
  show ?thesis
    using r0 a n l r1 r2 by (intro conjI)
qed

section \<open>The widget: \<open>fetch\<close>\<close>

lemma showQuotaExceeded_visible: "ui_modal (showQuotaExceeded u) = Some True"
  by (cases "ui_modal u") (auto simp: showQuotaExceeded_def createModal_def Let_def)

lemma fetch_resolves:
  assumes "fetch_prepare w s url options = (Inr preq, s1, calls)"
    and "w_net w preq = Resolves r"
  shows "fetch w s url options =
           (Inr r,
            (if rs_status r = 429 \<or> rs_status r = 402
             then s1\<lparr>widgetUI := showQuotaExceeded (widgetUI s1)\<rparr> else s1),
            calls @ [preq])"
  using assms by (simp add: fetch_def Let_def)

lemma fetch_rejects:
  assumes "fetch_prepare w s url options = (Inr preq, s1, calls)"
    and "w_net w preq = Rejects msg"
  shows "fetch w s url options = (Inl (NetworkError msg), s1, calls @ [preq])"
  using assms by (simp add: fetch_def)

text \<open>
  Claim C5. Once \<open>fetch\<close> has prepared its request, any response of the network is
  returned to the caller as it is, also one with status 429 or 402, for which the modal
  of the quota notification is made visible; \<open>fetch\<close> throws at this stage only when the
  network call itself rejects.
\<close>

theorem C5_quota_response_returned:
  assumes "fetch_prepare w s url options = (Inr preq, s1, calls)"
  shows "(\<forall>r. w_net w preq = Resolves r \<longrightarrow>
            fst (fetch w s url options) = Inr r
          \<and> snd (snd (fetch w s url options)) = calls @ [preq]
          \<and> (rs_status r = 429 \<or> rs_status r = 402 \<longrightarrow>
               ui_modal (widgetUI (fst (snd (fetch w s url options)))) = Some True))
       \<and> (\<forall>msg. w_net w preq = Rejects msg \<longrightarrow>
            fst (fetch w s url options) = Inl (NetworkError msg))"
proof -
  have p1: "\<forall>r. w_net w preq = Resolves r \<longrightarrow>
            fst (fetch w s url options) = Inr r
          \<and> snd (snd (fetch w s url options)) = calls @ [preq]
          \<and> (rs_status r = 429 \<or> rs_status r = 402 \<longrightarrow>
               ui_modal (widgetUI (fst (snd (fetch w s url options)))) = Some True)"
  proof (intro allI impI)
    fix r
    assume "w_net w preq = Resolves r"
    from fetch_resolves [OF assms this]
    show "fst (fetch w s url options) = Inr r
          \<and> snd (snd (fetch w s url options)) = calls @ [preq]
          \<and> (rs_status r = 429 \<or> rs_status r = 402 \<longrightarrow>
               ui_modal (widgetUI (fst (snd (fetch w s url options)))) = Some True)"
      by (simp add: showQuotaExceeded_visible)
  qed
  have p2: "\<forall>msg. w_net w preq = Rejects msg \<longrightarrow>
            fst (fetch w s url options) = Inl (NetworkError msg)"
    using fetch_rejects [OF assms] by simp
  show ?thesis using p1 p2 by (intro conjI)
qed

theorem C5_witness:
  "fst (fetch_prepare (sample_world (net_issuer ''AQID'' 429)) fresh_widget ''/chat'' post_options) =
     Inr \<lparr>rq_url = ''https://proxy.scopeblind.com/site_42/chat'', rq_method = ''POST'',
          rq_headers = [(''x-scopeblind-proof'', ''D/s=''), (''x-scopeblind-site'', ''site_42'')],
          rq_body = None\<rparr>
   \<and> fst (fetch (sample_world (net_issuer ''AQID'' 429)) fresh_widget ''/chat'' post_options) =
       Inr (plain_response 429 ''body'' None)
   \<and> ui_modal (widgetUI (fst (snd
         (fetch (sample_world (net_issuer ''AQID'' 429)) fresh_widget ''/chat'' post_options)))) =
       Some True
   \<and> fst (fetch (sample_world (net_issuer ''AQID'' 402)) fresh_widget ''/chat'' post_options) =
       Inr (plain_response 402 ''body'' None)
   \<and> fst (fetch (sample_world net_proxy_down) fresh_widget ''/chat'' post_options) =
       Inl (NetworkError ''offline'')"
proof -
  let ?w = "sample_world (net_issuer ''AQID'' 429)"
  let ?w2 = "sample_world (net_issuer ''AQID'' 402)"
  let ?wd = "sample_world net_proxy_down"
  let ?preq = "\<lparr>rq_url = ''https://proxy.scopeblind.com/site_42/chat'', rq_method = ''POST'',
          rq_headers = [(''x-scopeblind-proof'', ''D/s=''), (''x-scopeblind-site'', ''site_42'')],
          rq_body = None\<rparr>"
  have a: "fst (fetch_prepare ?w fresh_widget ''/chat'' post_options) = Inr ?preq"
    by code_simp
  obtain s1 calls where e: "fetch_prepare ?w fresh_widget ''/chat'' post_options = (Inr ?preq, s1, calls)"
    using a by (metis fst_conv prod.exhaust_sel)
  have n: "w_net ?w ?preq = Resolves (plain_response 429 ''body'' None)" by code_simp
  have st: "rs_status (plain_response 429 ''body'' None) = 429"
    by (simp add: plain_response_def)
  note T = C5_quota_response_returned [OF e]
  have r1: "fst (fetch ?w fresh_widget ''/chat'' post_options) = Inr (plain_response 429 ''body'' None)"
    using T n by blast
  have r2: "ui_modal (widgetUI (fst (snd (fetch ?w fresh_widget ''/chat'' post_options)))) = Some True"
    using T n st by blast
  have a2: "fst (fetch_prepare ?w2 fresh_widget ''/chat'' post_options) = Inr ?preq"
    by code_simp
  obtain s2 calls2 where e2: "fetch_prepare ?w2 fresh_widget ''/chat'' post_options = (Inr ?preq, s2, calls2)"
    using a2 by (metis fst_conv prod.exhaust_sel)
  have n2: "w_net ?w2 ?preq = Resolves (plain_response 402 ''body'' None)" by code_simp
  have r3: "fst (fetch ?w2 fresh_widget ''/chat'' post_options) = Inr (plain_response 402 ''body'' None)"
    using C5_quota_response_returned [OF e2] n2 by blast
  have a3: "fst (fetch_prepare ?wd fresh_widget ''/chat'' post_options) = Inr ?preq"
    by code_simp
  obtain s3 calls3 where e3: "fetch_prepare ?wd fresh_widget ''/chat'' post_options = (Inr ?preq, s3, calls3)"
    using a3 by (metis fst_conv prod.exhaust_sel)
  have n3: "w_net ?wd ?preq = Rejects ''offline''" by code_simp
  have r4: "fst (fetch ?wd fresh_widget ''/chat'' post_options) = Inl (NetworkError ''offline'')"
    using C5_quota_response_returned [OF e3] n3 by blast
  show ?thesis
    by (intro conjI a r1 r2 r3 r4)
qed

section \<open>The widget: the path of the proxied request\<close>

















section \<open>Holder binding: the fallback identity\<close>

lemma getFallbackIdentity_result:
  assumes "storage_get_ok w" and "storage_set_ok w" and "randomUUID_ok w"
    and "randomUUID w \<noteq> []"
  shows "\<exists>d. getFallbackIdentity w ls =
               (Inr \<lparr>di_type = Fallback, di_publicKey = None, di_deviceId = Some d\<rparr>,
                snd (getFallbackIdentity w ls))
           \<and> d \<noteq> []
           \<and> getItem (snd (getFallbackIdentity w ls)) ''sb_device_id'' = Some d"
proof (cases "truthy (getItem ls ''sb_device_id'')")
  case True
  then obtain d where "getItem ls ''sb_device_id'' = Some d" and "d \<noteq> []"
    by (cases "getItem ls ''sb_device_id''") auto
  with assms(1) show ?thesis by (simp add: getFallbackIdentity_def Let_def)
next
  case False
  with assms show ?thesis
    by (simp add: getFallbackIdentity_def Let_def getItem_setItem)
qed

lemma getFallbackIdentity_stored:
  assumes "storage_get_ok w'" and "getItem ls ''sb_device_id'' = Some d" and "d \<noteq> []"
  shows "getFallbackIdentity w' ls =
           (Inr \<lparr>di_type = Fallback, di_publicKey = None, di_deviceId = Some d\<rparr>, ls)"
  using assms by (simp add: getFallbackIdentity_def Let_def)

lemma getFallbackIdentity_throws:
  assumes "storage_get_ok w" and "\<not> truthy (getItem ls ''sb_device_id'')"
    and "\<not> randomUUID_ok w"
  shows "getFallbackIdentity w ls = (Inl TypeError, ls)"
  using assms by (simp add: getFallbackIdentity_def Let_def)

lemma getOrCreate_unavailable:
  assumes "keygen_unavailable w db"
  shows "getOrCreateDeviceIdentity w (ls, db) =
           (fst (getFallbackIdentity w ls),
            (snd (getFallbackIdentity w ls),
             if subtle_present w then snd (getWebCryptoIdentity w db) else db))"
  using assms
  by (auto simp: getOrCreateDeviceIdentity_def keygen_unavailable_def
      split: prod.splits sum.splits)

lemma signRequest_no_subtle:
  "\<not> subtle_present w \<Longrightarrow> fst (signRequest w db m p b) = None"
  by (simp add: signRequest_def Let_def split: prod.splits sum.splits option.splits)

lemma signRequest_no_open:
  "\<not> idb_open_ok w \<Longrightarrow> fst (signRequest w db m p b) = None"
  by (simp add: signRequest_def openDB_def)

lemma signRequest_no_get:
  "\<not> idb_get_ok w \<Longrightarrow> fst (signRequest w db m p b) = None"
  by (simp add: signRequest_def db_get_def split: prod.splits sum.splits idb.splits)

lemma signRequest_sign_fails:
  "\<forall>h data. subtle_sign w h data = None \<Longrightarrow> fst (signRequest w db m p b) = None"
  by (simp add: signRequest_def Let_def
      split: prod.splits sum.splits option.splits idb_value.splits)

lemma signRequest_no_private_key:
  "map_of m ''privateKey'' = None \<Longrightarrow> fst (signRequest w (Store m) mth p b) = None"
  by (simp add: signRequest_def openDB_def db_get_def)

lemma signRequest_no_store: "fst (signRequest w NoStore mth p b) = None"
  by (simp add: signRequest_def openDB_def db_get_def)

lemma getWebCryptoIdentity_creates_store:
  "idb_open_ok w \<Longrightarrow> getWebCryptoIdentity w NoDatabase = getWebCryptoIdentity w (Store [])"
  by (simp add: getWebCryptoIdentity_def openDB_def)

lemma getWebCryptoIdentity_no_store:
  "idb_open_ok w \<Longrightarrow> snd (getWebCryptoIdentity w NoStore) = NoStore"
  by (simp add: getWebCryptoIdentity_def openDB_def db_get_def)

lemma getWebCryptoIdentity_known_key:
  assumes "idb_open_ok w" and "idb_get_ok w" and "map_of m ''publicKey'' = Some k"
  shows "\<not> isl (fst (getWebCryptoIdentity w (Store m)))"
  using assms by (simp add: getWebCryptoIdentity_def openDB_def db_get_def)

lemma getWebCryptoIdentity_failure_store:
  assumes "idb_open_ok w" and "idb_get_ok w"
    and "map_of m ''publicKey'' = None" and "map_of m ''privateKey'' = None"
    and "isl (fst (getWebCryptoIdentity w (Store m)))"
  shows "\<exists>m'. snd (getWebCryptoIdentity w (Store m)) = Store m' \<and>
              map_of m' ''privateKey'' = None"
proof (cases "generateKey w")
  case None
  with assms show ?thesis
    by (simp add: getWebCryptoIdentity_def openDB_def db_get_def)
next
  case (Some kp)
  obtain pub priv where kp: "kp = (pub, priv)" by (cases kp)
  show ?thesis
  proof (cases "exportKey w pub")
    case None
    with assms Some kp show ?thesis
      by (simp add: getWebCryptoIdentity_def openDB_def db_get_def)
  next
    case (Some spki)
    show ?thesis
    proof (cases "idb_put_ok w ''publicKey''")
      case False
      with assms \<open>generateKey w = Some kp\<close> kp Some show ?thesis
        by (simp add: getWebCryptoIdentity_def openDB_def db_get_def db_put_def)
    next
      case True
      show ?thesis
      proof (cases "idb_put_ok w ''privateKey''")
        case False
        with assms \<open>generateKey w = Some kp\<close> kp Some True show ?thesis
          by (simp add: getWebCryptoIdentity_def openDB_def db_get_def db_put_def update_conv')
      next
        case pk: True
        with assms \<open>generateKey w = Some kp\<close> kp Some True show ?thesis
          by (simp add: getWebCryptoIdentity_def openDB_def db_get_def db_put_def)
      qed
    qed
  qed
qed

lemma signRequest_after_failed_store:
  assumes "isl (fst (getWebCryptoIdentity w (Store m)))"
    and "map_of m ''privateKey'' = None \<or> map_of m ''publicKey'' \<noteq> None"
    and "idb_open_ok w" and "idb_get_ok w"
  shows "fst (signRequest w (snd (getWebCryptoIdentity w (Store m))) mth p b) = None"
proof (cases "map_of m ''publicKey''")
  case None
  with assms(2) have "map_of m ''privateKey'' = None" by simp
  from getWebCryptoIdentity_failure_store [OF assms(3,4) None this assms(1)]
  obtain m' where "snd (getWebCryptoIdentity w (Store m)) = Store m'"
    and "map_of m' ''privateKey'' = None" by blast
  then show ?thesis by (simp add: signRequest_no_private_key)
next
  case (Some k)
  from getWebCryptoIdentity_known_key [OF assms(3,4) Some] assms(1)
  show ?thesis by simp
qed

lemma signRequest_after_failed_keygen:
  assumes "isl (fst (getWebCryptoIdentity w db))" and "keys_consistent db"
  shows "fst (signRequest w (snd (getWebCryptoIdentity w db)) mth p b) = None"
proof (cases "idb_open_ok w \<and> idb_get_ok w")
  case False
  then show ?thesis
    using signRequest_no_open signRequest_no_get by blast
next
  case True
  show ?thesis
  proof (cases db)
    case NoDatabase
    have "fst (signRequest w (snd (getWebCryptoIdentity w (Store []))) mth p b) = None"
      using assms(1) True NoDatabase
      by (intro signRequest_after_failed_store)
         (simp_all add: getWebCryptoIdentity_creates_store)
    with True NoDatabase show ?thesis
      by (simp add: getWebCryptoIdentity_creates_store)
  next
    case NoStore
    with True show ?thesis
      by (simp add: getWebCryptoIdentity_no_store signRequest_no_store)
  next
    case (Store m)
    with assms True show ?thesis
      by (intro signRequest_after_failed_store [of w m, folded Store])
         (simp_all add: keys_consistent_def)
  qed
qed

subsection \<open>The store never holds a private key without its public key\<close>

lemma openDB_consistent:
  "keys_consistent db \<Longrightarrow> keys_consistent (snd (openDB w db up))"
  by (cases db) (simp_all add: openDB_def keys_consistent_def)

lemma db_put_public_consistent:
  "keys_consistent db \<Longrightarrow> keys_consistent (snd (db_put w db v ''publicKey''))"
  by (cases db) (simp_all add: db_put_def keys_consistent_def update_conv')

lemma db_put_private_consistent:
  assumes "db = Store m" and "map_of m ''publicKey'' = Some x"
  shows "keys_consistent (snd (db_put w db v ''privateKey''))"
  using assms by (simp add: db_put_def keys_consistent_def update_conv')

lemma db_put_public_stored:
  assumes "db_put w db v ''publicKey'' = (Inr u, db1)"
  shows "\<exists>m. db1 = Store m \<and> map_of m ''publicKey'' = Some v"
  using assms by (cases db) (auto simp: db_put_def update_conv' split: if_splits)

lemma signRequest_keeps_consistent:
  "keys_consistent db \<Longrightarrow> keys_consistent (snd (signRequest w db mth p b))"
proof -
  assume c: "keys_consistent db"
  have "snd (signRequest w db mth p b) = snd (openDB w db False)"
    by (simp add: signRequest_def Let_def
        split: prod.splits sum.splits option.splits idb_value.splits)
  then show ?thesis using openDB_consistent [OF c] by simp
qed

lemma getWebCryptoIdentity_keeps_consistent:
  assumes "keys_consistent db"
  shows "keys_consistent (snd (getWebCryptoIdentity w db))"
proof -
  obtain r db0 where o: "openDB w db True = (r, db0)" by (cases "openDB w db True")
  have c0: "keys_consistent db0"
    using openDB_consistent [OF assms, of w True] o by simp
  show ?thesis
  proof (cases r)
    case (Inl e)
    with o c0 show ?thesis by (simp add: getWebCryptoIdentity_def)
  next
    case (Inr u)
    show ?thesis
    proof (cases "db_get w db0 ''publicKey''")
      case (Inl e)
      with o Inr c0 show ?thesis by (simp add: getWebCryptoIdentity_def)
    next
      case g: (Inr found)
      show ?thesis
      proof (cases found)
        case (Some k)
        with o Inr g c0 show ?thesis by (simp add: getWebCryptoIdentity_def)
      next
        case None
        show ?thesis
        proof (cases "generateKey w")
          case gk: None
          with o Inr g None c0 show ?thesis by (simp add: getWebCryptoIdentity_def)
        next
          case gk: (Some kp)
          obtain pub priv where kp: "kp = (pub, priv)" by (cases kp)
          show ?thesis
          proof (cases "exportKey w pub")
            case ek: None
            with o Inr g None gk kp c0 show ?thesis by (simp add: getWebCryptoIdentity_def)
          next
            case ek: (Some spki)
            obtain r1 db1 where p1: "db_put w db0 (KeyBytes spki) ''publicKey'' = (r1, db1)"
              by (cases "db_put w db0 (KeyBytes spki) ''publicKey''")
            have c1: "keys_consistent db1"
              using db_put_public_consistent [OF c0, of w "KeyBytes spki"] p1 by simp
            show ?thesis
            proof (cases r1)
              case (Inl e)
              with o Inr g None gk kp ek p1 c1 show ?thesis
                by (simp add: getWebCryptoIdentity_def)
            next
              case r1: (Inr u1)
              from db_put_public_stored [OF p1 [unfolded r1]]
              obtain m where m: "db1 = Store m" "map_of m ''publicKey'' = Some (KeyBytes spki)"
                by blast
              have c2: "keys_consistent (snd (db_put w db1 (KeyHandle priv) ''privateKey''))"
                using db_put_private_consistent [OF m] .
              with o Inr g None gk kp ek p1 r1 show ?thesis
                by (auto simp: getWebCryptoIdentity_def split: prod.splits sum.splits)
            qed
          qed
        qed
      qed
    qed
  qed
qed

lemma getOrCreate_keeps_consistent:
  assumes "keys_consistent db"
  shows "keys_consistent (snd (snd (getOrCreateDeviceIdentity w (ls, db))))"
  using assms getWebCryptoIdentity_keeps_consistent [OF assms, of w]
  by (auto simp: getOrCreateDeviceIdentity_def split: prod.splits sum.splits)

lemma NoDatabase_consistent: "keys_consistent NoDatabase"
  by (simp add: keys_consistent_def)

subsection \<open>What the fallback gives while key generation stays unavailable\<close>

lemma fallback_identity_while_unavailable:
  assumes "keygen_unavailable w db" and "randomUUID w \<noteq> []"
    and "randomUUID_ok w" and "storage_get_ok w" and "storage_set_ok w"
  shows "\<exists>d ls' db'.
           getOrCreateDeviceIdentity w (ls, db) =
             (Inr \<lparr>di_type = Fallback, di_publicKey = None, di_deviceId = Some d\<rparr>, (ls', db'))
         \<and> d \<noteq> []
         \<and> (\<forall>w' db''. keygen_unavailable w' db'' \<and> storage_get_ok w' \<longrightarrow>
               getOrCreateDeviceIdentity w' (ls', db'') =
                 (Inr \<lparr>di_type = Fallback, di_publicKey = None, di_deviceId = Some d\<rparr>,
                  (ls', if subtle_present w' then snd (getWebCryptoIdentity w' db'') else db'')))
         \<and> (keys_consistent db \<longrightarrow> fst (signRequest w db' mth p b) = None)"
proof -
  let ?ls' = "snd (getFallbackIdentity w ls)"
  let ?db' = "if subtle_present w then snd (getWebCryptoIdentity w db) else db"
  from getFallbackIdentity_result [OF assms(4) assms(5) assms(3) assms(2), of ls]
  obtain d where f: "getFallbackIdentity w ls =
               (Inr \<lparr>di_type = Fallback, di_publicKey = None, di_deviceId = Some d\<rparr>, ?ls')"
    and d: "d \<noteq> []"
    and st: "getItem ?ls' ''sb_device_id'' = Some d"
    by blast
  have p1: "getOrCreateDeviceIdentity w (ls, db) =
             (Inr \<lparr>di_type = Fallback, di_publicKey = None, di_deviceId = Some d\<rparr>, (?ls', ?db'))"
  proof -
    have "fst (getFallbackIdentity w ls) =
            Inr \<lparr>di_type = Fallback, di_publicKey = None, di_deviceId = Some d\<rparr>"
      using f by (metis fst_conv)
    then show ?thesis
      using getOrCreate_unavailable [OF assms(1), of ls] by simp
  qed
  have p3: "\<forall>w' db''. keygen_unavailable w' db'' \<and> storage_get_ok w' \<longrightarrow>
               getOrCreateDeviceIdentity w' (?ls', db'') =
                 (Inr \<lparr>di_type = Fallback, di_publicKey = None, di_deviceId = Some d\<rparr>,
                  (?ls', if subtle_present w' then snd (getWebCryptoIdentity w' db'') else db''))"
  proof (intro allI impI)
    fix w' db''
    assume u: "keygen_unavailable w' db'' \<and> storage_get_ok w'"
    then have u1: "keygen_unavailable w' db''" and u2: "storage_get_ok w'" by simp_all
    show "getOrCreateDeviceIdentity w' (?ls', db'') =
                 (Inr \<lparr>di_type = Fallback, di_publicKey = None, di_deviceId = Some d\<rparr>,
                  (?ls', if subtle_present w' then snd (getWebCryptoIdentity w' db'') else db''))"
      using getOrCreate_unavailable [OF u1, of ?ls'] getFallbackIdentity_stored [OF u2 st d]
      by simp
  qed
  have p4: "keys_consistent db \<longrightarrow> fst (signRequest w ?db' mth p b) = None"
  proof (cases "subtle_present w")
    case True
    with assms(1) have "isl (fst (getWebCryptoIdentity w db))"
      by (simp add: keygen_unavailable_def)
    with True show ?thesis
      using signRequest_after_failed_keygen [of w db mth p b] by simp
  next
    case False
    then show ?thesis by (simp add: signRequest_no_subtle)
  qed
  show ?thesis
    using p1 d p3 p4 by blast
qed

lemma signRequest_degrades_to_null:
  assumes "\<not> idb_open_ok w \<or> \<not> idb_get_ok w \<or> \<not> subtle_present w \<or>
           (\<forall>h data. subtle_sign w h data = None)"
  shows "fst (signRequest w db0 mth p b) = None"
  using assms
proof (elim disjE)
  assume "\<not> idb_open_ok w"
  then show ?thesis by (rule signRequest_no_open)
next
  assume "\<not> idb_get_ok w"
  then show ?thesis by (rule signRequest_no_get)
next
  assume "\<not> subtle_present w"
  then show ?thesis by (rule signRequest_no_subtle)
next
  assume "\<forall>h data. subtle_sign w h data = None"
  then show ?thesis by (rule signRequest_sign_fails)
qed

subsection \<open>Where the fallback is lost\<close>

text \<open>
  The two writes of \<open>getWebCryptoIdentity\<close> are two transactions. When the first is stored
  and the second is not, the call throws and \<open>getOrCreateDeviceIdentity\<close> falls back; the
  public key stays in the store, so the next call finds an ``existing keypair'', returns
  a \<open>webcrypto\<close> identity without a device identifier, and \<open>signRequest\<close> has no private
  key to sign with.
\<close>

lemma getWebCryptoIdentity_half_written:
  assumes "idb_open_ok w" and "idb_get_ok w"
    and "generateKey w = Some (pub, priv)" and "exportKey w pub = Some spki"
    and "idb_put_ok w ''publicKey''" and "\<not> idb_put_ok w ''privateKey''"
  shows "getWebCryptoIdentity w NoDatabase =
           (Inl StorageError, Store [(''publicKey'', KeyBytes spki)])"
    and "getWebCryptoIdentity w (Store [(''publicKey'', KeyBytes spki)]) =
           (Inr \<lparr>di_type = Webcrypto, di_publicKey = Some (KeyBytes spki), di_deviceId = None\<rparr>,
            Store [(''publicKey'', KeyBytes spki)])"
    and "fst (signRequest w (Store [(''publicKey'', KeyBytes spki)]) mth p b) = None"
  using assms
  by (simp_all add: getWebCryptoIdentity_def openDB_def db_get_def db_put_def signRequest_def)

lemma getOrCreate_after_half_written:
  assumes "subtle_present w" and "idb_open_ok w" and "idb_get_ok w"
    and "generateKey w = Some (pub, priv)" and "exportKey w pub = Some spki"
    and "idb_put_ok w ''publicKey''" and "\<not> idb_put_ok w ''privateKey''"
    and "randomUUID_ok w" and "storage_get_ok w" and "storage_set_ok w"
  shows "getOrCreateDeviceIdentity w ([], NoDatabase) =
           (Inr \<lparr>di_type = Fallback, di_publicKey = None, di_deviceId = Some (randomUUID w)\<rparr>,
            ([(''sb_device_id'', randomUUID w)], Store [(''publicKey'', KeyBytes spki)]))"
    and "getOrCreateDeviceIdentity w
           ([(''sb_device_id'', randomUUID w)], Store [(''publicKey'', KeyBytes spki)]) =
           (Inr \<lparr>di_type = Webcrypto, di_publicKey = Some (KeyBytes spki), di_deviceId = None\<rparr>,
            ([(''sb_device_id'', randomUUID w)], Store [(''publicKey'', KeyBytes spki)]))"
  using assms getWebCryptoIdentity_half_written(1,2) [OF assms(2-7)]
  by (simp_all add: getOrCreateDeviceIdentity_def getFallbackIdentity_def Let_def
      getItem_def setItem_def)

text \<open>
  \<open>getFallbackIdentity\<close> calls \<open>crypto.randomUUID()\<close> outside every \<open>try\<close>. Where
  \<open>crypto.subtle\<close> is missing because the page is not in a secure context, \<open>randomUUID\<close> is
  missing as well, and on a browser without a stored identifier the call throws.
\<close>

lemma getOrCreate_fallback_throws:
  assumes "\<not> subtle_present w" and "\<not> randomUUID_ok w" and "storage_get_ok w"
    and "\<not> truthy (getItem ls ''sb_device_id'')"
  shows "getOrCreateDeviceIdentity w (ls, db) = (Inl TypeError, (ls, db))"
  using assms getFallbackIdentity_throws [OF assms(3) assms(4) assms(2)]
  by (simp add: getOrCreateDeviceIdentity_def)

text \<open>
  Claim C7, at the two failing inputs. On a fresh browser whose store takes the public
  key and refuses the private key, the first call of \<open>getOrCreateDeviceIdentity\<close> returns
  the fallback identity \<open>u1\<close>; the second call, in the same world on the state the first
  one left, returns a \<open>webcrypto\<close> identity with no device identifier, and \<open>signRequest\<close>
  returns \<open>null\<close> there. On a fresh browser outside a secure context (no \<open>crypto.subtle\<close>,
  no \<open>crypto.randomUUID\<close>) the call throws a \<open>TypeError\<close> instead of returning an identity.
\<close>

theorem C7_fallback_not_stable:
  "getOrCreateDeviceIdentity world_private_put_fails ([], NoDatabase) =
     (Inr \<lparr>di_type = Fallback, di_publicKey = None, di_deviceId = Some ''u1''\<rparr>,
      ([(''sb_device_id'', ''u1'')], Store [(''publicKey'', KeyBytes [48, 1])]))
   \<and> getOrCreateDeviceIdentity world_private_put_fails
       ([(''sb_device_id'', ''u1'')], Store [(''publicKey'', KeyBytes [48, 1])]) =
     (Inr \<lparr>di_type = Webcrypto, di_publicKey = Some (KeyBytes [48, 1]), di_deviceId = None\<rparr>,
      ([(''sb_device_id'', ''u1'')], Store [(''publicKey'', KeyBytes [48, 1])]))
   \<and> fst (signRequest world_private_put_fails (Store [(''publicKey'', KeyBytes [48, 1])])
            ''POST'' ''/chat'' None) = None
   \<and> subtle_present world_insecure_context = False
   \<and> getOrCreateDeviceIdentity world_insecure_context ([], NoDatabase) =
       (Inl TypeError, ([], NoDatabase))"
  by code_simp

end
